theory Spec2Isabelle
  imports Main
begin

section \<open>The Vault issuer of certify (issuers/vault/vault.go)\<close>

text \<open>
  The issuer talks to a Hashicorp Vault PKI backend through the Vault API client, builds
  the signing request with the CSR package of the repository and assembles the result
  with the TLS library. Those collaborators are not part of vault.go: they are the
  fields of an environment record, and every function of vault.go takes the environment
  as its first argument. A Go function either panics or returns its result tuple; a
  pointer that may be nil is an option.
\<close>

subsection \<open>Values\<close>

type_synonym bytes = string

definition newline :: char where
  "newline = CHR 0x0A"

text \<open>A Go error value: the sentinel \<open>io.EOF\<close>, or any other error.\<close>

datatype error = EOF | Failure string

text \<open>What a call of a Go function does: it panics, or it returns.\<close>

datatype 'a result = Panic | Returns 'a

text \<open>
  The dynamic values of \<open>interface{}\<close> that decoding a JSON document produces:
  nil, bool, json.Number, string, \<open>[]interface{}\<close> and \<open>map[string]interface{}\<close>.
\<close>

datatype json =
    JNull
  | JBool bool
  | JNumber string
  | JString string
  | JArray "json list"
  | JObject "(string \<times> json) list"

text \<open>
  \<open>api.Secret\<close>, with the two fields vault.go reads. \<open>Data\<close> is a Go map: an
  association list read with \<open>map_of\<close>; it has an entry exactly when the list is
  not empty.
\<close>

record secret =
  Data :: "(string \<times> json) list"
  Warnings :: "string list"

datatype tlsConfig = TLSConfig string

text \<open>\<open>api.Config\<close>: the address and the TLS configuration of the transport.\<close>

record vaultConfig =
  Address :: string
  TLSClientConfig :: "tlsConfig option"

text \<open>\<open>api.Client\<close>: the configuration it was made from and its token.\<close>

record client =
  config :: vaultConfig
  token :: string

text \<open>
  Modelled from the spec: the declarations of \<open>ttl\<close> and \<open>csrOpts\<close> are in a file
  of package vault that is not among the sources. \<open>ttl\<close> is the type that
  \<open>ttl(v.TimeToLive)\<close> converts a \<open>time.Duration\<close> to; \<open>csrOpts\<close> has the fields
  that the composite literal of \<open>Issue\<close> names, which are the parts of the request
  body the spec lists (csr, common name, exclude CN from SANs, output format, other
  SANs, ttl). The field \<open>TimeToLive\<close> of \<open>csrOpts\<close> is \<open>optsTimeToLive\<close> here,
  since the issuer has a field of the same name.
\<close>

datatype ttl = ttl int

record csrOpts =
  CSR :: string
  CommonName :: string
  ExcludeCNFromSANS :: bool
  Format :: string
  OtherSans :: "string list"
  optsTimeToLive :: ttl

text \<open>\<open>api.Request\<close>: method, path and the JSON body set by \<open>SetJSONBody\<close>.\<close>

record request =
  Method :: string
  URLPath :: string
  Obj :: "csrOpts option"

text \<open>
  \<open>api.Response\<close>: the status code and the unread part of the body stream.
\<close>

record response =
  StatusCode :: int
  Body :: bytes

datatype privateKey = Key bytes

text \<open>\<open>x509.Certificate\<close>: the parsed form of one DER certificate.\<close>

record x509Certificate =
  Raw :: bytes
  SubjectCommonName :: string
  RawSubjectPublicKeyInfo :: bytes

text \<open>\<open>tls.Certificate\<close>: the DER chain, the private key and the parsed leaf.\<close>

record tlsCertificate =
  Certificate :: "bytes list"
  PrivateKey :: "privateKey option"
  Leaf :: "x509Certificate option"

text \<open>\<open>certify.CertConfig\<close>, passed on to the CSR package unread.\<close>

record certConfig =
  SubjectAlternativeNames :: "string list"
  IPSubjectAlternativeNames :: "string list"

subsection \<open>The issuer\<close>

text \<open>
  The struct \<open>Issuer\<close>. \<open>URL\<close> is a \<open>*url.URL\<close>, here the text its
  \<open>String\<close> method renders; \<open>TimeToLive\<close> is a \<open>time.Duration\<close>.
\<close>

record Issuer =
  URL :: "string option"
  Token :: string
  Mount :: string
  Role :: string
  TLSConfig :: "tlsConfig option"
  TimeToLive :: int
  OtherSubjectAlternativeNames :: "string list"
  cli :: "client option"

definition FromClient :: "client option \<Rightarrow> string \<Rightarrow> Issuer" where
  "FromClient v role =
     \<lparr>URL = None, Token = [], Mount = [], Role = role, TLSConfig = None,
      TimeToLive = 0, OtherSubjectAlternativeNames = [], cli = v\<rparr>"

subsection \<open>The collaborators\<close>

text \<open>
  The functions vault.go calls in other packages:
  \<^item> \<open>defaultConfig\<close>: \<open>api.DefaultConfig()\<close>;
  \<^item> \<open>newClient\<close>: \<open>api.NewClient\<close>, returning the client pointer and the error;
  \<^item> \<open>fromCertConfig\<close>: \<open>csr.FromCertConfig\<close>, returning the encoded CSR, the
    encoded private key and the error;
  \<^item> \<open>setJSONBody\<close>: the error of marshalling the request body in \<open>SetJSONBody\<close>;
  \<^item> \<open>rawRequest\<close>: \<open>RawRequestWithContext\<close>, returning the response pointer and
    the error (a cancelled context is one of its errors);
  \<^item> \<open>parseSecret\<close>: \<open>api.ParseSecret\<close> on a body stream, returning the secret
    pointer and the error, and the part of the stream it left unread;
  \<^item> \<open>x509KeyPair\<close>: \<open>tls.X509KeyPair\<close>, returning the certificate and the error;
  \<^item> \<open>parseCertificate\<close>: \<open>x509.ParseCertificate\<close>.
\<close>

record env =
  defaultConfig :: vaultConfig
  newClient :: "vaultConfig \<Rightarrow> client option \<times> error option"
  fromCertConfig :: "string \<Rightarrow> certConfig option \<Rightarrow> bytes \<times> bytes \<times> error option"
  setJSONBody :: "csrOpts \<Rightarrow> error option"
  rawRequest :: "client \<Rightarrow> request \<Rightarrow> response option \<times> error option"
  parseSecret :: "bytes \<Rightarrow> (secret option \<times> error option) \<times> bytes"
  x509KeyPair :: "bytes \<Rightarrow> bytes \<Rightarrow> tlsCertificate \<times> error option"
  parseCertificate :: "bytes \<Rightarrow> x509Certificate option \<times> error option"

text \<open>What a call does to the world outside the issuer, in order.\<close>

datatype event =
    NewClient vaultConfig
  | SendRequest client request

subsection \<open>connect\<close>

text \<open>
  \<open>connect\<close> (lines 58 to 74). \<open>v.URL.String()\<close> dereferences \<open>v.URL\<close>, and
  \<open>v.cli.SetToken\<close> dereferences the client that \<open>api.NewClient\<close> returned. The
  assignment \<open>v.cli, err = api.NewClient(vConf)\<close> stores the returned pointer
  whether or not there is an error.
\<close>

definition connect :: "env \<Rightarrow> Issuer \<Rightarrow> error option result \<times> Issuer \<times> event list" where
  "connect E v =
     (let vConf = defaultConfig E;
          vConf1 = (case TLSConfig v of
                      Some t \<Rightarrow> vConf\<lparr>TLSClientConfig := Some t\<rparr>
                    | None \<Rightarrow> vConf)
      in case URL v of
           None \<Rightarrow> (Panic, v, [])
         | Some u \<Rightarrow>
             (let vConf2 = vConf1\<lparr>Address := u\<rparr>;
                  (c, err) = newClient E vConf2;
                  v1 = v\<lparr>cli := c\<rparr>
              in case err of
                   Some e \<Rightarrow> (Returns (Some e), v1, [NewClient vConf2])
                 | None \<Rightarrow>
                     (case c of
                        None \<Rightarrow> (Panic, v1, [NewClient vConf2])
                      | Some c1 \<Rightarrow>
                          (Returns None, v1\<lparr>cli := Some (c1\<lparr>token := Token v\<rparr>)\<rparr>,
                           [NewClient vConf2]))))"

subsection \<open>signCSR\<close>

text \<open>
  The end of \<open>signCSR\<close> (lines 154 to 158): the error of the request, or the secret
  parsed from the body of the response.
\<close>

definition signCSR_rest ::
  "env \<Rightarrow> response option \<Rightarrow> error option \<Rightarrow> (secret option \<times> error option) result" where
  "signCSR_rest E resp err =
     (case err of
        Some e \<Rightarrow> Returns (None, Some e)
      | None \<Rightarrow>
          (case resp of
             None \<Rightarrow> Panic
           | Some rs \<Rightarrow> Returns (fst (parseSecret E (Body rs)))))"

text \<open>
  The handling of the response (lines 138 to 158). On status 404 the body is parsed:
  \<open>io.EOF\<close> gives \<open>(nil, nil)\<close>, another parse error gives \<open>(nil, err)\<close>, and a
  secret with a warning or a data entry is returned together with \<open>err\<close>, the error
  of the request. Everything else goes on to the end of the function, with the body
  as the first parse left it.
\<close>

definition signCSR_response ::
  "env \<Rightarrow> response option \<Rightarrow> error option \<Rightarrow> (secret option \<times> error option) result" where
  "signCSR_response E resp err =
     (case resp of
        None \<Rightarrow> signCSR_rest E resp err
      | Some rs \<Rightarrow>
          if StatusCode rs = 404 then
            (let ((sec, parseErr), unread) = parseSecret E (Body rs)
             in case parseErr of
                  None \<Rightarrow>
                    (case sec of
                       None \<Rightarrow> signCSR_rest E (Some (rs\<lparr>Body := unread\<rparr>)) err
                     | Some s \<Rightarrow>
                         if Warnings s \<noteq> [] \<or> Data s \<noteq> [] then Returns (Some s, err)
                         else signCSR_rest E (Some (rs\<lparr>Body := unread\<rparr>)) err)
                | Some EOF \<Rightarrow> Returns (None, None)
                | Some (Failure m) \<Rightarrow> Returns (None, err))
          else signCSR_rest E resp err)"

text \<open>
  \<open>signCSR\<close> (lines 126 to 159). \<open>v.cli.NewRequest\<close> dereferences the client.
\<close>

definition signCSR ::
  "env \<Rightarrow> Issuer \<Rightarrow> csrOpts \<Rightarrow> (secret option \<times> error option) result \<times> event list" where
  "signCSR E v opts =
     (let pkiMountName = (if Mount v \<noteq> [] then Mount v else ''pki'')
      in case cli v of
           None \<Rightarrow> (Panic, [])
         | Some c \<Rightarrow>
             (let r = \<lparr>Method = ''PUT'',
                       URLPath = ''/v1/'' @ pkiMountName @ ''/sign/'' @ Role v,
                       Obj = None\<rparr>
              in case setJSONBody E opts of
                   Some e \<Rightarrow> (Returns (None, Some e), [])
                 | None \<Rightarrow>
                     (let r1 = r\<lparr>Obj := Some opts\<rparr>;
                          (resp, err) = rawRequest E c r1
                      in (signCSR_response E resp err, [SendRequest c r1]))))"

subsection \<open>Issue\<close>

text \<open>The loop over \<open>ca_chain\<close> (lines 109 to 111); \<open>pemData.(string)\<close> panics on
  an entry that is not a string.\<close>

fun appendChain :: "bytes \<Rightarrow> json list \<Rightarrow> bytes result" where
  "appendChain caChainPEM [] = Returns caChainPEM"
| "appendChain caChainPEM (JString pemData # rest) =
     appendChain (caChainPEM @ [newline] @ pemData) rest"
| "appendChain caChainPEM (_ # rest) = Panic"

text \<open>
  The value of \<open>caChainPEM\<close> at line 116, from the secret (lines 106 to 114). The
  type assertions \<open>.(string)\<close> and \<open>.([]interface{})\<close> panic on a value of another
  dynamic type, and \<open>.(string)\<close> on the nil of a missing key.
\<close>

definition caChainPEM :: "secret \<Rightarrow> bytes result" where
  "caChainPEM sec =
     (case map_of (Data sec) ''certificate'' of
        Some (JString certPEM) \<Rightarrow>
          (case map_of (Data sec) ''ca_chain'' of
             Some caChain \<Rightarrow>
               (case caChain of
                  JArray entries \<Rightarrow> appendChain certPEM entries
                | _ \<Rightarrow> Panic)
           | None \<Rightarrow>
               (case map_of (Data sec) ''issuing_ca'' of
                  Some ca \<Rightarrow>
                    (case ca of
                       JString s \<Rightarrow> Returns (certPEM @ [newline] @ s)
                     | _ \<Rightarrow> Panic)
                | None \<Rightarrow> Returns certPEM))
      | _ \<Rightarrow> Panic)"

text \<open>
  Lines 116 to 123: the key pair is made from the chain and the key, and the leaf is
  parsed from \<open>tlsCert.Certificate[0]\<close>, the error of the parse dropped. Indexing an
  empty chain panics.
\<close>

definition keyPair :: "env \<Rightarrow> bytes \<Rightarrow> bytes \<Rightarrow> (tlsCertificate option \<times> error option) result" where
  "keyPair E chainPEM keyPEM =
     (let (tlsCert, err) = x509KeyPair E chainPEM keyPEM
      in case err of
           Some e \<Rightarrow> Returns (None, Some e)
         | None \<Rightarrow>
             (case Certificate tlsCert of
                [] \<Rightarrow> Panic
              | der # _ \<Rightarrow>
                  Returns (Some (tlsCert\<lparr>Leaf := fst (parseCertificate E der)\<rparr>), None)))"

text \<open>The composite literal \<open>opts\<close> of \<open>Issue\<close> (lines 91 to 98).\<close>

definition Issue_opts :: "Issuer \<Rightarrow> string \<Rightarrow> bytes \<Rightarrow> csrOpts" where
  "Issue_opts v commonName csrPEM =
     \<lparr>CSR = csrPEM,
      CommonName = commonName,
      ExcludeCNFromSANS = True,
      Format = ''pem'',
      OtherSans = OtherSubjectAlternativeNames v,
      optsTimeToLive = ttl (TimeToLive v)\<rparr>"

text \<open>
  \<open>Issue\<close> (lines 78 to 124). A nil secret from \<open>signCSR\<close> with a nil error is
  dereferenced by \<open>secret.Data\<close> at line 106.
\<close>

definition Issue ::
  "env \<Rightarrow> Issuer \<Rightarrow> string \<Rightarrow> certConfig option \<Rightarrow>
   (tlsCertificate option \<times> error option) result \<times> Issuer \<times> event list" where
  "Issue E v commonName conf =
     (let (connected, v1, t1) =
            (if cli v = None then connect E v else (Returns None, v, []))
      in case connected of
           Panic \<Rightarrow> (Panic, v1, t1)
         | Returns (Some err) \<Rightarrow> (Returns (None, Some err), v1, t1)
         | Returns None \<Rightarrow>
             (let (csrPEM, keyPEM, err) = fromCertConfig E commonName conf
              in case err of
                   Some e \<Rightarrow> (Returns (None, Some e), v1, t1)
                 | None \<Rightarrow>
                     (let (signed, t2) = signCSR E v1 (Issue_opts v1 commonName csrPEM)
                      in case signed of
                           Panic \<Rightarrow> (Panic, v1, t1 @ t2)
                         | Returns (_, Some e) \<Rightarrow> (Returns (None, Some e), v1, t1 @ t2)
                         | Returns (None, None) \<Rightarrow> (Panic, v1, t1 @ t2)
                         | Returns (Some sec, None) \<Rightarrow>
                             (case caChainPEM sec of
                                Panic \<Rightarrow> (Panic, v1, t1 @ t2)
                              | Returns chainPEM \<Rightarrow>
                                  (keyPair E chainPEM keyPEM, v1, t1 @ t2)))))"

subsection \<open>The contract of the TLS library\<close>

text \<open>
  \<open>tls.X509KeyPair\<close> and \<open>x509.ParseCertificate\<close> belong to the Go library, not to
  the repository. What \<open>Issue\<close> relies on, and says so in its comment at line 121:
  when \<open>tls.X509KeyPair\<close> returns no error, the chain it decoded is not empty, it has
  parsed the first certificate of the chain with \<open>x509.ParseCertificate\<close>, and it has
  checked that the private key belongs to the public key of that certificate. The
  relation \<open>matches\<close> stands for that check.
\<close>

definition keyPairContract :: "(privateKey \<Rightarrow> x509Certificate \<Rightarrow> bool) \<Rightarrow> env \<Rightarrow> bool" where
  "keyPairContract matches E =
     (\<forall>chainPEM keyPEM tlsCert.
        x509KeyPair E chainPEM keyPEM = (tlsCert, None) \<longrightarrow>
        (\<exists>der rest leaf key.
           Certificate tlsCert = der # rest \<and>
           parseCertificate E der = (Some leaf, None) \<and>
           PrivateKey tlsCert = Some key \<and>
           matches key leaf))"

text \<open>
  The text of a chain of PEM certificates as \<open>Issue\<close> writes it: the entries in
  order, a newline before each but the first.
\<close>

fun chainText :: "bytes list \<Rightarrow> bytes" where
  "chainText [] = []"
| "chainText (pem # pems) = pem @ concat (map ((#) newline) pems)"

text \<open>
  The order in which the library decodes. \<open>pemDecode p = Some d\<close> says that the text
  \<open>p\<close> is the PEM encoding of one certificate, whose DER bytes are \<open>d\<close>.
  \<open>tls.X509KeyPair\<close> decodes the certificate blocks of its first argument from left
  to right: from the text of a chain of PEM certificates it decodes their DER bytes in
  the same order and nothing else, and from a text that starts with a PEM certificate
  and goes on after a newline, the chain it decodes starts with that certificate.
\<close>

definition decodesInOrder :: "(bytes \<Rightarrow> bytes option) \<Rightarrow> env \<Rightarrow> bool" where
  "decodesInOrder pemDecode E =
     ((\<forall>pems ders keyPEM tlsCert.
         pems \<noteq> [] \<and> map pemDecode pems = map Some ders \<and>
         x509KeyPair E (chainText pems) keyPEM = (tlsCert, None) \<longrightarrow>
         Certificate tlsCert = ders) \<and>
      (\<forall>leaf der rest keyPEM tlsCert.
         pemDecode leaf = Some der \<and>
         x509KeyPair E (leaf @ newline # rest) keyPEM = (tlsCert, None) \<longrightarrow>
         (\<exists>ders. Certificate tlsCert = der # ders)))"

subsection \<open>Calls of Issue that overlap\<close>

text \<open>
  \<open>Issue\<close> has a pointer receiver, so calls on one issuer share \<open>v.cli\<close>. The part
  of a call that touches the session has three steps: the test \<open>v.cli == nil\<close> of line
  79, the assignment \<open>v.cli, err = api.NewClient(vConf)\<close> of line 67, and
  \<open>v.cli.SetToken(v.Token)\<close> of line 72, which reads \<open>v.cli\<close> again. Nothing in
  vault.go orders the steps of two calls, so a run is any interleaving of them.
\<close>

datatype pc = AtCheck | AtNewClient | AtSetToken | Connected | Failed | Panicked

definition callStep ::
  "env \<Rightarrow> Issuer \<times> event list \<Rightarrow> pc \<Rightarrow> (Issuer \<times> event list) \<times> pc" where
  "callStep E s p =
     (let (v, tr) = s
      in case p of
           AtCheck \<Rightarrow> (s, if cli v = None then AtNewClient else Connected)
         | AtNewClient \<Rightarrow>
             (let vConf = defaultConfig E;
                  vConf1 = (case TLSConfig v of
                              Some t \<Rightarrow> vConf\<lparr>TLSClientConfig := Some t\<rparr>
                            | None \<Rightarrow> vConf)
              in case URL v of
                   None \<Rightarrow> (s, Panicked)
                 | Some u \<Rightarrow>
                     (let vConf2 = vConf1\<lparr>Address := u\<rparr>;
                          (c, err) = newClient E vConf2
                      in ((v\<lparr>cli := c\<rparr>, tr @ [NewClient vConf2]),
                          if err = None then AtSetToken else Failed)))
         | AtSetToken \<Rightarrow>
             (case cli v of
                None \<Rightarrow> (s, Panicked)
              | Some c1 \<Rightarrow> ((v\<lparr>cli := Some (c1\<lparr>token := Token v\<rparr>)\<rparr>, tr), Connected))
         | _ \<Rightarrow> (s, p))"

text \<open>
  A run under a schedule: each entry names the call that takes its next step.
\<close>

fun run ::
  "env \<Rightarrow> nat list \<Rightarrow> (Issuer \<times> event list) \<times> pc list \<Rightarrow> (Issuer \<times> event list) \<times> pc list" where
  "run E [] cfg = cfg"
| "run E (i # sched) (s, pcs) =
     (if i < length pcs
      then (let (s1, p1) = callStep E s (pcs ! i) in run E sched (s1, pcs[i := p1]))
      else run E sched (s, pcs))"

text \<open>The number of sessions a trace establishes.\<close>

fun isNewClient :: "event \<Rightarrow> bool" where
  "isNewClient (NewClient _) = True"
| "isNewClient (SendRequest _ _) = False"

definition sessions :: "event list \<Rightarrow> nat" where
  "sessions tr = length (filter isNewClient tr)"

section \<open>The asynchronous issuer and the certificate assembler\<close>

text \<open>
  Modelled from the spec: the asynchronous issuer (package issuers/aws) is not among
  the sources, only its test is. \<open>asyncIssue\<close> follows the procedure of section 4.2
  of the specification and \<open>Assemble\<close> the contract of section 4.3, with the errors of
  section 7. The chain is the sequence of encoded certificates, the leaf first; the CSR
  builder, the three calls of the wire contract (submit, wait, fetch) and the
  primitives of the assembler are parameters.
\<close>

datatype issueError =
    ConfigurationError
  | CSRBuildError error
  | TransportError error
  | CAProtocolError
  | IssuanceDeniedError
  | TimeoutError
  | PairingError

datatype waitResult = Issued | Expired | Denied

record assembler =
  parseLeaf :: "bytes \<Rightarrow> x509Certificate option"
  decodeKey :: "bytes \<Rightarrow> privateKey option"
  pairs :: "privateKey \<Rightarrow> x509Certificate \<Rightarrow> bool"

record asyncEnv =
  build :: "string \<Rightarrow> certConfig option \<Rightarrow> bytes \<times> bytes \<times> error option"
  submit :: "string \<Rightarrow> bytes \<Rightarrow> int \<Rightarrow> string \<Rightarrow> error + string"
  wait :: "string \<Rightarrow> string \<Rightarrow> waitResult"
  fetch :: "string \<Rightarrow> string \<Rightarrow> error + (bytes \<times> bytes list)"
  assembling :: assembler

record asyncIssuer =
  CertificateAuthority :: string
  ValidityDays :: int
  SigningAlgorithm :: string

text \<open>
  Modelled from the spec: \<open>Assemble\<close> of section 4.3, which is not a function of the
  sources. It validates that the key and the leaf's public key pair (a mismatch is a
  \<open>PairingError\<close>), parses the leaf from the first entry of the chain and attaches it,
  and keeps the chain as supplied.
\<close>

definition Assemble :: "assembler \<Rightarrow> bytes list \<Rightarrow> bytes \<Rightarrow> issueError + tlsCertificate" where
  "Assemble A chain keyBytes =
     (case chain of
        [] \<Rightarrow> Inl CAProtocolError
      | first # _ \<Rightarrow>
          (case parseLeaf A first of
             None \<Rightarrow> Inl CAProtocolError
           | Some leaf \<Rightarrow>
               (case decodeKey A keyBytes of
                  None \<Rightarrow> Inl CAProtocolError
                | Some key \<Rightarrow>
                    if pairs A key leaf
                    then Inr \<lparr>Certificate = chain, PrivateKey = Some key, Leaf = Some leaf\<rparr>
                    else Inl PairingError)))"

text \<open>
  Modelled from the spec: \<open>Issue\<close> of the asynchronous issuer, section 4.2, steps 1 to
  5, which is not among the sources.
\<close>

definition asyncIssue ::
  "asyncEnv \<Rightarrow> asyncIssuer \<Rightarrow> string \<Rightarrow> certConfig option \<Rightarrow> issueError + tlsCertificate" where
  "asyncIssue A I commonName spec =
     (if CertificateAuthority I = [] then Inl ConfigurationError
      else
        (let (csrBytes, keyBytes, err) = build A commonName spec
         in case err of
              Some e \<Rightarrow> Inl (CSRBuildError e)
            | None \<Rightarrow>
                (case submit A (CertificateAuthority I) csrBytes (ValidityDays I)
                        (SigningAlgorithm I) of
                   Inl e \<Rightarrow> Inl (TransportError e)
                 | Inr handle \<Rightarrow>
                     (case wait A (CertificateAuthority I) handle of
                        Expired \<Rightarrow> Inl TimeoutError
                      | Denied \<Rightarrow> Inl IssuanceDeniedError
                      | Issued \<Rightarrow>
                          (case fetch A (CertificateAuthority I) handle of
                             Inl e \<Rightarrow> Inl (TransportError e)
                           | Inr (leaf, chain) \<Rightarrow>
                               Assemble (assembling A) (leaf # chain) keyBytes)))))"

section \<open>Concrete runs\<close>

text \<open>
  A Vault whose sign call answers with a given response and error. Its bodies are the
  empty one (\<open>api.ParseSecret\<close> returns a nil secret and a nil error), a blank one
  (a newline only: the parse ends in \<open>io.EOF\<close>), \<open>signed\<close> (a leaf with a
  chain and an issuing CA),
  \<open>issuing\<close> (a leaf with an issuing CA), \<open>leaf\<close> (a leaf alone),
  \<open>foreign\<close> (a certificate for another key), \<open>warned\<close> (a secret with only a
  warning), \<open>{}\<close> (a secret with nothing in it) and anything else (not JSON).
\<close>

definition signedSecret :: secret where
  "signedSecret =
     \<lparr>Data = [(''certificate'', JString ''LEAF''),
              (''ca_chain'', JArray [JString ''INT'']),
              (''issuing_ca'', JString ''CA'')],
      Warnings = []\<rparr>"

definition issuingSecret :: secret where
  "issuingSecret =
     \<lparr>Data = [(''certificate'', JString ''LEAF''), (''issuing_ca'', JString ''CA'')],
      Warnings = []\<rparr>"

definition leafSecret :: secret where
  "leafSecret = \<lparr>Data = [(''certificate'', JString ''LEAF'')], Warnings = []\<rparr>"

definition foreignSecret :: secret where
  "foreignSecret = \<lparr>Data = [(''certificate'', JString ''FOREIGN'')], Warnings = []\<rparr>"

definition mismatch :: error where
  "mismatch = Failure ''tls: private key does not match public key''"

definition warnedSecret :: secret where
  "warnedSecret = \<lparr>Data = [], Warnings = [''no such role'']\<rparr>"

definition emptySecret :: secret where
  "emptySecret = \<lparr>Data = [], Warnings = []\<rparr>"

definition notFound :: error where
  "notFound = Failure ''Error making API request. Code: 404''"

definition leafCertificate :: x509Certificate where
  "leafCertificate =
     \<lparr>Raw = ''leaf-der'', SubjectCommonName = ''somename.com'',
      RawSubjectPublicKeyInfo = ''public''\<rparr>"

text \<open>The PEM texts of the fixture and the DER bytes they encode.\<close>

definition vaultPEM :: "bytes \<Rightarrow> bytes option" where
  "vaultPEM pem =
     (if pem = ''LEAF'' then Some ''leaf-der''
      else if pem = ''INT'' then Some ''int-der''
      else if pem = ''CA'' then Some ''ca-der''
      else None)"

definition samePublicKey :: "privateKey \<Rightarrow> x509Certificate \<Rightarrow> bool" where
  "samePublicKey key cert = (key = Key (RawSubjectPublicKeyInfo cert))"

definition vaultEnv :: "response option \<times> error option \<Rightarrow> env" where
  "vaultEnv answer =
     \<lparr>defaultConfig = \<lparr>Address = ''https://127.0.0.1:8200'', TLSClientConfig = None\<rparr>,
      newClient = (\<lambda>vConf. (Some \<lparr>config = vConf, token = []\<rparr>, None)),
      fromCertConfig = (\<lambda>commonName conf. (''CSR'', ''KEY'', None)),
      setJSONBody = (\<lambda>body. None),
      rawRequest = (\<lambda>c r. answer),
      parseSecret =
        (\<lambda>body. if body = [] then ((None, None), [])
                else if body = [newline] then ((None, Some EOF), [])
                else if body = ''signed'' then ((Some signedSecret, None), [])
                else if body = ''issuing'' then ((Some issuingSecret, None), [])
                else if body = ''leaf'' then ((Some leafSecret, None), [])
                else if body = ''foreign'' then ((Some foreignSecret, None), [])
                else if body = ''warned'' then ((Some warnedSecret, None), [])
                else if body = ''{}'' then ((Some emptySecret, None), [])
                else ((None, Some (Failure ''invalid character'')), [])),
      x509KeyPair =
        (\<lambda>chainPEM keyPEM.
           if chainPEM = ''LEAF'' @ [newline] @ ''INT'' \<and> keyPEM = ''KEY''
           then (\<lparr>Certificate = [''leaf-der'', ''int-der''],
                  PrivateKey = Some (Key ''public''), Leaf = None\<rparr>, None)
           else if chainPEM = ''LEAF'' @ [newline] @ ''CA'' \<and> keyPEM = ''KEY''
           then (\<lparr>Certificate = [''leaf-der'', ''ca-der''],
                  PrivateKey = Some (Key ''public''), Leaf = None\<rparr>, None)
           else if chainPEM = ''LEAF'' \<and> keyPEM = ''KEY''
           then (\<lparr>Certificate = [''leaf-der''],
                  PrivateKey = Some (Key ''public''), Leaf = None\<rparr>, None)
           else if chainPEM = ''FOREIGN''
           then (\<lparr>Certificate = [], PrivateKey = None, Leaf = None\<rparr>, Some mismatch)
           else (\<lparr>Certificate = [], PrivateKey = None, Leaf = None\<rparr>,
                 Some (Failure ''tls: failed to find any PEM data in certificate input''))),
      parseCertificate =
        (\<lambda>der. if der = ''leaf-der'' then (Some leafCertificate, None)
               else (None, Some (Failure ''x509: malformed certificate'')))\<rparr>"

definition signed200 :: "response option \<times> error option" where
  "signed200 = (Some \<lparr>StatusCode = 200, Body = ''signed''\<rparr>, None)"

definition issuing200 :: "response option \<times> error option" where
  "issuing200 = (Some \<lparr>StatusCode = 200, Body = ''issuing''\<rparr>, None)"

definition leaf200 :: "response option \<times> error option" where
  "leaf200 = (Some \<lparr>StatusCode = 200, Body = ''leaf''\<rparr>, None)"

definition foreign200 :: "response option \<times> error option" where
  "foreign200 = (Some \<lparr>StatusCode = 200, Body = ''foreign''\<rparr>, None)"

definition empty404 :: "response option \<times> error option" where
  "empty404 = (Some \<lparr>StatusCode = 404, Body = []\<rparr>, Some notFound)"

definition blank404 :: "response option \<times> error option" where
  "blank404 = (Some \<lparr>StatusCode = 404, Body = [newline]\<rparr>, Some notFound)"

definition warned404 :: "response option \<times> error option" where
  "warned404 = (Some \<lparr>StatusCode = 404, Body = ''warned''\<rparr>, Some notFound)"

definition signed404 :: "response option \<times> error option" where
  "signed404 = (Some \<lparr>StatusCode = 404, Body = ''signed''\<rparr>, Some notFound)"

definition bare404 :: "response option \<times> error option" where
  "bare404 = (Some \<lparr>StatusCode = 404, Body = ''{}''\<rparr>, Some notFound)"

definition html404 :: "response option \<times> error option" where
  "html404 = (Some \<lparr>StatusCode = 404, Body = ''<html>''\<rparr>, Some notFound)"

definition vaultClient :: client where
  "vaultClient =
     \<lparr>config = \<lparr>Address = ''https://vault:8200'', TLSClientConfig = None\<rparr>,
      token = ''s.token''\<rparr>"

text \<open>An issuer made by \<open>FromClient\<close>, and one that has to connect first.\<close>

definition clientIssuer :: Issuer where
  "clientIssuer = FromClient (Some vaultClient) ''web''"

definition freshIssuer :: Issuer where
  "freshIssuer =
     \<lparr>URL = Some ''https://vault:8200'', Token = ''s.token'', Mount = ''pki-int'',
      Role = ''web'', TLSConfig = None, TimeToLive = 3600000000000,
      OtherSubjectAlternativeNames = [''1.3.6.1.4.1.311.20.2.3;UTF8:devops@nope.com''],
      cli = None\<rparr>"

text \<open>An asynchronous CA that issues a leaf with a one-certificate chain.\<close>

definition acmEnv :: asyncEnv where
  "acmEnv =
     \<lparr>build = (\<lambda>commonName spec. (''CSR'', ''KEY'', None)),
      submit = (\<lambda>ca csrBytes days alg. Inr ''anotherARN''),
      wait = (\<lambda>ca handle. Issued),
      fetch = (\<lambda>ca handle. Inr (''leaf-der'', [''ca-der''])),
      assembling =
        \<lparr>parseLeaf = (\<lambda>der. if der = ''leaf-der'' then Some leafCertificate else None),
         decodeKey = (\<lambda>keyBytes. if keyBytes = ''KEY'' then Some (Key ''public'') else None),
         pairs = samePublicKey\<rparr>\<rparr>"

definition acmIssuer :: asyncIssuer where
  "acmIssuer =
     \<lparr>CertificateAuthority = ''someARN'', ValidityDays = 25,
      SigningAlgorithm = ''SHA256WITHRSA''\<rparr>"

section \<open>Properties of the Vault issuer\<close>

lemmas code_defs =
  Issue_def Issue_opts_def connect_def signCSR_def signCSR_response_def signCSR_rest_def
  caChainPEM_def keyPair_def Let_def

lemmas fixture_defs =
  vaultEnv_def signed200_def issuing200_def leaf200_def foreign200_def empty404_def
  blank404_def warned404_def signed404_def bare404_def html404_def clientIssuer_def freshIssuer_def
  FromClient_def vaultClient_def signedSecret_def issuingSecret_def leafSecret_def
  warnedSecret_def foreignSecret_def emptySecret_def notFound_def mismatch_def
  leafCertificate_def samePublicKey_def

lemmas acm_defs =
  asyncIssue_def Assemble_def acmEnv_def acmIssuer_def leafCertificate_def samePublicKey_def

subsection \<open>What connect, signCSR and Issue do to the issuer and to the world\<close>

lemma connect_frame:
  "connect E v = (r, v1, t1) \<Longrightarrow> v1 = v\<lparr>cli := cli v1\<rparr>"
  by (auto simp: connect_def Let_def split: option.splits prod.splits)

lemma connect_sends_nothing:
  "connect E v = (r, v1, t1) \<Longrightarrow> filter (\<lambda>ev. \<not> isNewClient ev) t1 = []"
  by (auto simp: connect_def Let_def split: option.splits prod.splits)

lemma signCSR_trace:
  assumes "signCSR E v opts = (out, tr)" and "SendRequest c r \<in> set tr"
  shows "cli v = Some c \<and>
         r = \<lparr>Method = ''PUT'',
              URLPath = ''/v1/'' @ (if Mount v \<noteq> [] then Mount v else ''pki'') @
                        ''/sign/'' @ Role v,
              Obj = Some opts\<rparr> \<and>
         tr = [SendRequest c r] \<and>
         out = signCSR_response E (fst (rawRequest E c r)) (snd (rawRequest E c r))"
  using assms
  by (auto simp: signCSR_def Let_def split: option.splits prod.splits)

lemma signCSR_connects_nothing:
  "signCSR E v opts = (out, tr) \<Longrightarrow> filter isNewClient tr = []"
  by (auto simp: signCSR_def Let_def split: option.splits prod.splits)

lemma Issue_frame:
  "Issue E v commonName conf = (out, v1, tr) \<Longrightarrow>
     v1 = v\<lparr>cli := cli v1\<rparr> \<and> (cli v \<noteq> None \<longrightarrow> v1 = v)"
  by (auto simp: Issue_def Let_def dest: connect_frame
           split: option.splits prod.splits result.splits if_splits)

lemma Issue_trace:
  assumes "Issue E v commonName conf = (out, v1, tr)" and "SendRequest c r \<in> set tr"
  shows "filter (\<lambda>ev. \<not> isNewClient ev) tr = [SendRequest c r] \<and>
         snd (signCSR E v1 (Issue_opts v1 commonName (fst (fromCertConfig E commonName conf))))
           = [SendRequest c r]"
proof -
  obtain r0 v0 t1 where con:
    "(if cli v = None then connect E v else (Returns None, v, [])) = (r0, v0, t1)"
    by (metis prod_cases3)
  have quiet: "filter (\<lambda>ev. \<not> isNewClient ev) t1 = []"
    using con connect_sends_nothing by (auto split: if_splits)
  then have notin: "SendRequest c r \<notin> set t1"
    by (metis filter_empty_conv isNewClient.simps(2))
  obtain csrPEM keyPEM err where csr: "fromCertConfig E commonName conf = (csrPEM, keyPEM, err)"
    by (metis prod_cases3)
  obtain signed t2 where sg: "signCSR E v0 (Issue_opts v0 commonName csrPEM) = (signed, t2)"
    by (metis surj_pair)
  from assms con csr sg notin have v: "v1 = v0" and tr: "tr = t1 @ t2" and mem: "SendRequest c r \<in> set t2"
    by (auto simp: Issue_def Let_def split: option.splits result.splits if_splits)
  from signCSR_trace [OF sg mem] have t2: "t2 = [SendRequest c r]"
    by simp
  with quiet tr v sg csr show ?thesis
    by simp
qed

lemma Issue_success:
  assumes "Issue E v commonName conf = (Returns (Some c, None), v1, tr)"
  shows "\<exists>csrPEM keyPEM sec t2 chainPEM tlsCert der rest.
           fromCertConfig E commonName conf = (csrPEM, keyPEM, None) \<and>
           signCSR E v1 (Issue_opts v1 commonName csrPEM) = (Returns (Some sec, None), t2) \<and>
           caChainPEM sec = Returns chainPEM \<and>
           x509KeyPair E chainPEM keyPEM = (tlsCert, None) \<and>
           Certificate tlsCert = der # rest \<and>
           c = tlsCert\<lparr>Leaf := fst (parseCertificate E der)\<rparr>"
  using assms
  by (auto simp: Issue_def keyPair_def Let_def
           split: option.splits prod.splits result.splits if_splits list.splits)

text \<open>
  A 404 answer whose body is at its end makes \<open>signCSR\<close> return a nil secret and a
  nil error, and \<open>Issue\<close> panics on a nil secret that comes with a nil error.
\<close>

lemma signCSR_response_EOF:
  assumes "StatusCode rs = 404" and "fst (parseSecret E (Body rs)) = (sec, Some EOF)"
  shows "signCSR_response E (Some rs) err = Returns (None, None)"
  using assms by (auto simp: signCSR_response_def split: prod.splits)

lemma Issue_nil_secret:
  assumes "cli v = Some c"
    and "fromCertConfig E commonName conf = (csrPEM, keyPEM, None)"
    and "fst (signCSR E v (Issue_opts v commonName csrPEM)) = Returns (None, None)"
  shows "fst (Issue E v commonName conf) = Panic"
  using assms
  by (auto simp: Issue_def Let_def split: prod.splits)

text \<open>
  The outcome of a call whose session part (lines 79 to 84) succeeds, whose CSR is
  built and whose sign call returns a secret is the outcome of lines 116 to 123 on the
  chain text and the key.
\<close>

lemma Issue_after_session:
  assumes "(if cli v = None then connect E v else (Returns None, v, [])) = (Returns None, w, ts)"
    and "fromCertConfig E commonName conf = (csrPEM, keyPEM, None)"
    and "fst (signCSR E w (Issue_opts w commonName csrPEM)) = Returns (Some sec, None)"
    and "caChainPEM sec = Returns chainPEM"
  shows "fst (Issue E v commonName conf) = keyPair E chainPEM keyPEM"
  using assms
  by (auto simp: Issue_def Let_def split: prod.splits)

lemma keyPair_success:
  assumes "x509KeyPair E chainPEM keyPEM = (tlsCert, None)"
    and "Certificate tlsCert = der # rest"
  shows "keyPair E chainPEM keyPEM =
           Returns (Some (tlsCert\<lparr>Leaf := fst (parseCertificate E der)\<rparr>), None)"
  using assms by (simp add: keyPair_def)

lemma keyPair_error:
  assumes "snd (x509KeyPair E chainPEM keyPEM) = Some e"
  shows "keyPair E chainPEM keyPEM = Returns (None, Some e)"
  using assms by (auto simp: keyPair_def split: prod.splits)

subsection \<open>The chain\<close>

lemma appendChain_strings:
  "appendChain acc (map JString chain) = Returns (acc @ concat (map ((#) newline) chain))"
  by (induction chain arbitrary: acc) simp_all

lemma appendChain_text:
  "appendChain acc entries = Returns text \<Longrightarrow>
     text = acc \<or> (\<exists>rest. text = acc @ newline # rest)"
proof (induction acc entries rule: appendChain.induct)
  case (2 caChainPEM pemData rest)
  then show ?case by auto
qed simp_all

lemma caChainPEM_text:
  assumes "caChainPEM sec = Returns text"
  shows "\<exists>certPEM. map_of (Data sec) ''certificate'' = Some (JString certPEM) \<and>
                   (text = certPEM \<or> (\<exists>rest. text = certPEM @ newline # rest))"
  using assms
  by (auto simp: caChainPEM_def dest: appendChain_text split: option.splits json.splits)

lemma caChainPEM_chain:
  assumes "map_of (Data sec) ''certificate'' = Some (JString leaf)"
    and "map_of (Data sec) ''ca_chain'' = Some (JArray (map JString chain))"
  shows "caChainPEM sec = Returns (chainText (leaf # chain))"
  using assms by (simp add: caChainPEM_def appendChain_strings)

lemma caChainPEM_issuing:
  assumes "map_of (Data sec) ''certificate'' = Some (JString leaf)"
    and "map_of (Data sec) ''ca_chain'' = None"
    and "map_of (Data sec) ''issuing_ca'' = Some (JString ca)"
  shows "caChainPEM sec = Returns (chainText [leaf, ca])"
  using assms by (simp add: caChainPEM_def)

lemma caChainPEM_leaf:
  assumes "map_of (Data sec) ''certificate'' = Some (JString leaf)"
    and "map_of (Data sec) ''ca_chain'' = None"
    and "map_of (Data sec) ''issuing_ca'' = None"
  shows "caChainPEM sec = Returns (chainText [leaf])"
  using assms by (simp add: caChainPEM_def)

text \<open>
  Under the decoding order of the library, the chain decoded from the text of PEM
  certificates is their DER bytes in order, and \<open>Issue\<close> returns it.
\<close>

lemma Issue_chain:
  assumes "(if cli v = None then connect E v else (Returns None, v, [])) = (Returns None, w, ts)"
    and "fromCertConfig E commonName conf = (csrPEM, keyPEM, None)"
    and "fst (signCSR E w (Issue_opts w commonName csrPEM)) = Returns (Some sec, None)"
    and "caChainPEM sec = Returns (chainText pems)"
    and "pems \<noteq> []"
  shows "fst (Issue E v commonName conf) = keyPair E (chainText pems) keyPEM \<and>
         (decodesInOrder pemDecode E \<longrightarrow> map pemDecode pems = map Some ders \<longrightarrow>
          snd (x509KeyPair E (chainText pems) keyPEM) = None \<longrightarrow>
            (\<exists>c. fst (Issue E v commonName conf) = Returns (Some c, None) \<and>
                 Certificate c = ders))"
proof (intro conjI impI)
  show run: "fst (Issue E v commonName conf) = keyPair E (chainText pems) keyPEM"
    using assms(1-4) by (rule Issue_after_session)
  assume dec: "decodesInOrder pemDecode E" and ders: "map pemDecode pems = map Some ders"
    and ok: "snd (x509KeyPair E (chainText pems) keyPEM) = None"
  obtain tlsCert where kp: "x509KeyPair E (chainText pems) keyPEM = (tlsCert, None)"
    using ok by (cases "x509KeyPair E (chainText pems) keyPEM") simp
  from dec assms(5) ders kp have chain: "Certificate tlsCert = ders"
    unfolding decodesInOrder_def by blast
  from ders assms(5) obtain d ds where "ders = d # ds"
    by (cases ders) auto
  with chain keyPair_success [OF kp] run
  show "\<exists>c. fst (Issue E v commonName conf) = Returns (Some c, None) \<and> Certificate c = ders"
    by simp
qed

lemma leaf_first:
  assumes "decodesInOrder pemDecode E"
    and "caChainPEM sec = Returns text"
    and "x509KeyPair E text keyPEM = (tlsCert, None)"
    and "map_of (Data sec) ''certificate'' = Some (JString certPEM)"
    and "pemDecode certPEM = Some der"
  shows "\<exists>ders. Certificate tlsCert = der # ders"
proof -
  from caChainPEM_text [OF assms(2)] assms(4)
  consider (alone) "text = chainText [certPEM]" | (more) rest where "text = certPEM @ newline # rest"
    by auto
  then show ?thesis
  proof cases
    case alone
    have "map pemDecode [certPEM] = map Some [der]"
      using assms(5) by simp
    with assms(1,3) alone have "Certificate tlsCert = [der]"
      unfolding decodesInOrder_def by blast
    then show ?thesis by simp
  next
    case more
    with assms(1,3,5) show ?thesis
      unfolding decodesInOrder_def by blast
  qed
qed

subsection \<open>The asynchronous issuer\<close>

lemma Assemble_success:
  assumes "Assemble A chain keyBytes = Inr c"
  shows "\<exists>first rest leaf key.
           chain = first # rest \<and> parseLeaf A first = Some leaf \<and>
           decodeKey A keyBytes = Some key \<and> pairs A key leaf \<and>
           c = \<lparr>Certificate = chain, PrivateKey = Some key, Leaf = Some leaf\<rparr>"
  using assms
  by (auto simp: Assemble_def split: list.splits option.splits if_splits)

lemma asyncIssue_success:
  assumes "asyncIssue A I commonName spec = Inr c"
  shows "\<exists>csrBytes keyBytes handle leaf chain.
           build A commonName spec = (csrBytes, keyBytes, None) \<and>
           fetch A (CertificateAuthority I) handle = Inr (leaf, chain) \<and>
           Assemble (assembling A) (leaf # chain) keyBytes = Inr c"
  using assms
  by (auto simp: asyncIssue_def Let_def
           split: if_splits prod.splits option.splits sum.splits waitResult.splits)

subsection \<open>Calls that overlap\<close>

lemma callStep_connected:
  assumes "cli v \<noteq> None" and "p = AtCheck \<or> p = Connected"
  shows "callStep E (v, tr) p = ((v, tr), Connected)"
  using assms by (auto simp: callStep_def)

lemma run_connected:
  assumes "cli v \<noteq> None" and "set pcs \<subseteq> {AtCheck, Connected}"
  shows "fst (run E sched ((v, tr), pcs)) = (v, tr)"
  using assms(2)
proof (induction sched arbitrary: pcs)
  case Nil
  then show ?case by simp
next
  case (Cons i sched)
  show ?case
  proof (cases "i < length pcs")
    case True
    then have "pcs ! i \<in> set pcs" by simp
    with Cons.prems have "pcs ! i = AtCheck \<or> pcs ! i = Connected" by auto
    then have step: "callStep E (v, tr) (pcs ! i) = ((v, tr), Connected)"
      using assms(1) by (rule callStep_connected [rotated])
    have "set (pcs[i := Connected]) \<subseteq> {AtCheck, Connected}"
      using Cons.prems set_update_subset_insert [of pcs i Connected] by auto
    then have "fst (run E sched ((v, tr), pcs[i := Connected])) = (v, tr)"
      by (rule Cons.IH)
    with True step show ?thesis by simp
  next
    case False
    with Cons.IH [OF Cons.prems] show ?thesis by simp
  qed
qed

text \<open>
  One call alone, scheduled three times, does what the first lines of \<open>Issue\<close> do
  with \<open>connect\<close>.
\<close>

lemma run_alone:
  "run E [0, 0, 0] ((v, []), [AtCheck]) =
     (case (if cli v = None then connect E v else (Returns None, v, [])) of
        (r, v1, t1) \<Rightarrow>
          ((v1, t1),
           [case r of Panic \<Rightarrow> Panicked | Returns None \<Rightarrow> Connected | Returns (Some e) \<Rightarrow> Failed]))"
  by (auto simp: callStep_def connect_def Let_def split: option.splits prod.splits)

subsection \<open>The concrete runs\<close>

lemma vaultEnv_contract: "keyPairContract samePublicKey (vaultEnv answer)"
  by (auto simp: keyPairContract_def fixture_defs split: if_splits)

lemma signed_run:
  "Issue (vaultEnv signed200) clientIssuer ''somename.com'' None =
     (Returns (Some \<lparr>Certificate = [''leaf-der'', ''int-der''],
                     PrivateKey = Some (Key ''public''), Leaf = Some leafCertificate\<rparr>, None),
      clientIssuer,
      [SendRequest vaultClient
         \<lparr>Method = ''PUT'', URLPath = ''/v1/pki/sign/web'',
          Obj = Some \<lparr>CSR = ''CSR'', CommonName = ''somename.com'', ExcludeCNFromSANS = True,
                      Format = ''pem'', OtherSans = [], optsTimeToLive = ttl 0\<rparr>\<rparr>])"
  by (simp add: code_defs fixture_defs)

lemma fresh_run:
  "Issue (vaultEnv signed200) freshIssuer ''somename.com'' None =
     (Returns (Some \<lparr>Certificate = [''leaf-der'', ''int-der''],
                     PrivateKey = Some (Key ''public''), Leaf = Some leafCertificate\<rparr>, None),
      freshIssuer\<lparr>cli := Some vaultClient\<rparr>,
      [NewClient \<lparr>Address = ''https://vault:8200'', TLSClientConfig = None\<rparr>,
       SendRequest vaultClient
         \<lparr>Method = ''PUT'', URLPath = ''/v1/pki-int/sign/web'',
          Obj = Some \<lparr>CSR = ''CSR'', CommonName = ''somename.com'', ExcludeCNFromSANS = True,
                      Format = ''pem'',
                      OtherSans = [''1.3.6.1.4.1.311.20.2.3;UTF8:devops@nope.com''],
                      optsTimeToLive = ttl 3600000000000\<rparr>\<rparr>])"
  by (simp add: code_defs fixture_defs)

lemma acm_run:
  "asyncIssue acmEnv acmIssuer ''somename.com'' None =
     Inr \<lparr>Certificate = [''leaf-der'', ''ca-der''], PrivateKey = Some (Key ''public''),
          Leaf = Some leafCertificate\<rparr>"
  by (simp add: acm_defs)

lemma empty_run:
  "fst (signCSR (vaultEnv empty404) clientIssuer
          (Issue_opts clientIssuer ''somename.com'' ''CSR'')) = Returns (None, Some notFound) \<and>
   fst (Issue (vaultEnv empty404) clientIssuer ''somename.com'' None)
     = Returns (None, Some notFound)"
  by (simp add: code_defs fixture_defs)

lemma fresh_session:
  "(if cli freshIssuer = None then connect (vaultEnv answer) freshIssuer
    else (Returns None, freshIssuer, [])) =
     (Returns None, freshIssuer\<lparr>cli := Some vaultClient\<rparr>,
      [NewClient \<lparr>Address = ''https://vault:8200'', TLSClientConfig = None\<rparr>])"
  by (simp add: connect_def Let_def fixture_defs)

lemma client_session:
  "(if cli clientIssuer = None then connect E clientIssuer
    else (Returns None, clientIssuer, [])) = (Returns None, clientIssuer, [])"
  by (simp add: fixture_defs)

lemma vault_csr: "fromCertConfig (vaultEnv answer) commonName conf = (''CSR'', ''KEY'', None)"
  by (simp add: fixture_defs)

lemma vault_signed:
  assumes "cli w = Some c"
  shows "fst (signCSR (vaultEnv signed200) w opts) = Returns (Some signedSecret, None)"
    and "fst (signCSR (vaultEnv issuing200) w opts) = Returns (Some issuingSecret, None)"
    and "fst (signCSR (vaultEnv leaf200) w opts) = Returns (Some leafSecret, None)"
    and "fst (signCSR (vaultEnv foreign200) w opts) = Returns (Some foreignSecret, None)"
  using assms
  by (simp_all add: signCSR_def signCSR_response_def signCSR_rest_def Let_def fixture_defs)

lemma vaultPEM_cases:
  assumes "vaultPEM p = Some d"
  shows "(p = ''LEAF'' \<and> d = ''leaf-der'') \<or> (p = ''INT'' \<and> d = ''int-der'') \<or>
         (p = ''CA'' \<and> d = ''ca-der'')"
  using assms by (auto simp: vaultPEM_def split: if_splits)

lemma x509KeyPair_cases:
  assumes "x509KeyPair (vaultEnv answer) text keyPEM = (tlsCert, None)"
  shows "(text = ''LEAF'' @ [newline] @ ''INT'' \<and> Certificate tlsCert = [''leaf-der'', ''int-der'']) \<or>
         (text = ''LEAF'' @ [newline] @ ''CA'' \<and> Certificate tlsCert = [''leaf-der'', ''ca-der'']) \<or>
         (text = ''LEAF'' \<and> Certificate tlsCert = [''leaf-der''])"
proof -
  let ?f = "x509KeyPair (vaultEnv answer)"
  have f: "?f = (\<lambda>chainPEM keyPEM.
           if chainPEM = ''LEAF'' @ [newline] @ ''INT'' \<and> keyPEM = ''KEY''
           then (\<lparr>Certificate = [''leaf-der'', ''int-der''],
                  PrivateKey = Some (Key ''public''), Leaf = None\<rparr>, None)
           else if chainPEM = ''LEAF'' @ [newline] @ ''CA'' \<and> keyPEM = ''KEY''
           then (\<lparr>Certificate = [''leaf-der'', ''ca-der''],
                  PrivateKey = Some (Key ''public''), Leaf = None\<rparr>, None)
           else if chainPEM = ''LEAF'' \<and> keyPEM = ''KEY''
           then (\<lparr>Certificate = [''leaf-der''],
                  PrivateKey = Some (Key ''public''), Leaf = None\<rparr>, None)
           else if chainPEM = ''FOREIGN''
           then (\<lparr>Certificate = [], PrivateKey = None, Leaf = None\<rparr>, Some mismatch)
           else (\<lparr>Certificate = [], PrivateKey = None, Leaf = None\<rparr>,
                 Some (Failure ''tls: failed to find any PEM data in certificate input'')))"
    unfolding vaultEnv_def by simp
  from assms show ?thesis
    unfolding f by (simp only: split: if_splits) auto
qed

lemma head_is_leaf:
  assumes "vaultPEM p = Some d" and "p @ tail = ''LEAF'' @ rest"
  shows "p = ''LEAF'' \<and> d = ''leaf-der'' \<and> tail = rest"
  using vaultPEM_cases [OF assms(1)] assms(2)
  by (elim disjE conjE) simp_all

lemma chain_tail_nil: "concat (map ((#) newline) ps) = [] \<Longrightarrow> ps = []"
  by (cases ps) simp_all

lemma chain_tail_one:
  assumes "concat (map ((#) newline) ps) = newline # x"
    and "map vaultPEM ps = map Some ds"
    and "x = ''INT'' \<or> x = ''CA''"
  shows "ps = [x] \<and> ds = [the (vaultPEM x)]"
proof (cases ps)
  case Nil
  with assms(1) show ?thesis by simp
next
  case (Cons q qs)
  with assms(2) obtain d ds' where ds: "ds = d # ds'" and q: "vaultPEM q = Some d"
    and qs: "map vaultPEM qs = map Some ds'"
    by (cases ds) simp_all
  from assms(1) Cons have eq: "q @ concat (map ((#) newline) qs) = x"
    by simp
  from vaultPEM_cases [OF q] eq assms(3) have "q = x \<and> concat (map ((#) newline) qs) = []"
    by (elim disjE conjE) simp_all
  then have "q = x" and "qs = []"
    using chain_tail_nil by simp_all
  with Cons ds q qs show ?thesis by simp
qed

lemma vaultEnv_decodes: "decodesInOrder vaultPEM (vaultEnv answer)"
  unfolding decodesInOrder_def
proof (intro conjI allI impI)
  fix pems ders keyPEM tlsCert
  assume h: "pems \<noteq> [] \<and> map vaultPEM pems = map Some ders \<and>
         x509KeyPair (vaultEnv answer) (chainText pems) keyPEM = (tlsCert, None)"
  then obtain p ps where pems: "pems = p # ps"
    by (cases pems) simp_all
  with h obtain d ds where ders: "ders = d # ds" and p: "vaultPEM p = Some d"
    and ps: "map vaultPEM ps = map Some ds"
    by (cases ders) simp_all
  let ?tail = "concat (map ((#) newline) ps)"
  from h have "x509KeyPair (vaultEnv answer) (chainText pems) keyPEM = (tlsCert, None)"
    by simp
  from x509KeyPair_cases [OF this] pems
  consider
      (chain) "p @ ?tail = ''LEAF'' @ (newline # ''INT'')"
        "Certificate tlsCert = [''leaf-der'', ''int-der'']"
    | (issuing) "p @ ?tail = ''LEAF'' @ (newline # ''CA'')"
        "Certificate tlsCert = [''leaf-der'', ''ca-der'']"
    | (alone) "p @ ?tail = ''LEAF'' @ []" "Certificate tlsCert = [''leaf-der'']"
    by (elim disjE conjE) simp_all
  then show "Certificate tlsCert = ders"
  proof cases
    case chain
    from head_is_leaf [OF p chain(1)] have d: "d = ''leaf-der''" and t: "?tail = newline # ''INT''"
      by simp_all
    from chain_tail_one [OF t ps] have "ds = [''int-der'']"
      by (simp add: vaultPEM_def)
    with chain(2) ders d show ?thesis by simp
  next
    case issuing
    from head_is_leaf [OF p issuing(1)] have d: "d = ''leaf-der''" and t: "?tail = newline # ''CA''"
      by simp_all
    from chain_tail_one [OF t ps] have "ds = [''ca-der'']"
      by (simp add: vaultPEM_def)
    with issuing(2) ders d show ?thesis by simp
  next
    case alone
    from head_is_leaf [OF p alone(1)] have d: "d = ''leaf-der''" and t: "?tail = []"
      by simp_all
    from chain_tail_nil [OF t] ps have "ds = []"
      by simp
    with alone(2) ders d show ?thesis by simp
  qed
next
  fix leaf der rest keyPEM tlsCert
  assume h: "vaultPEM leaf = Some der \<and>
       x509KeyPair (vaultEnv answer) (leaf @ newline # rest) keyPEM = (tlsCert, None)"
  then have p: "vaultPEM leaf = Some der"
    and "x509KeyPair (vaultEnv answer) (leaf @ newline # rest) keyPEM = (tlsCert, None)"
    by simp_all
  from x509KeyPair_cases [OF this(2)]
  consider
      (chain) "leaf @ (newline # rest) = ''LEAF'' @ (newline # ''INT'')"
        "Certificate tlsCert = [''leaf-der'', ''int-der'']"
    | (issuing) "leaf @ (newline # rest) = ''LEAF'' @ (newline # ''CA'')"
        "Certificate tlsCert = [''leaf-der'', ''ca-der'']"
    | (alone) "leaf @ (newline # rest) = ''LEAF'' @ []" "Certificate tlsCert = [''leaf-der'']"
    by (elim disjE conjE) simp_all
  then show "\<exists>ders. Certificate tlsCert = der # ders"
  proof cases
    case chain
    from head_is_leaf [OF p chain(1)] chain(2) show ?thesis by simp
  next
    case issuing
    from head_is_leaf [OF p issuing(1)] issuing(2) show ?thesis by simp
  next
    case alone
    from head_is_leaf [OF p alone(1)] alone(2) show ?thesis by simp
  qed
qed

section \<open>The claims\<close>

text \<open>
  C1. The specification says that a 404 answer whose body is empty or at its end makes
  \<open>Issue\<close> return a nil certificate and a nil error. Where the parse of the body
  ends in \<open>io.EOF\<close> (a body of white space only), \<open>signCSR\<close> does return a nil
  secret and a nil error, and \<open>Issue\<close> then reads \<open>secret.Data\<close> through the nil
  pointer: it panics.
\<close>

theorem Issue_panics_on_end_of_stream_not_found:
  "fst (signCSR (vaultEnv blank404) clientIssuer
          (Issue_opts clientIssuer ''somename.com'' ''CSR'')) = Returns (None, None) \<and>
   fst (Issue (vaultEnv blank404) clientIssuer ''somename.com'' None) = Panic"
proof -
  let ?E = "vaultEnv blank404"
  let ?rs = "\<lparr>StatusCode = 404, Body = [newline]\<rparr>"
  have parse: "fst (parseSecret ?E (Body ?rs)) = (None, Some EOF)"
    by (simp add: fixture_defs)
  have "signCSR_response ?E (Some ?rs) (Some notFound) = Returns (None, None)"
    by (rule signCSR_response_EOF [OF _ parse]) simp
  then have sign: "fst (signCSR ?E clientIssuer (Issue_opts clientIssuer ''somename.com'' ''CSR''))
                     = Returns (None, None)"
    by (simp add: signCSR_def fixture_defs)
  have "cli clientIssuer = Some vaultClient"
    and "fromCertConfig ?E ''somename.com'' None = (''CSR'', ''KEY'', None)"
    by (simp_all add: fixture_defs)
  from Issue_nil_secret [OF this sign] sign show ?thesis
    by simp
qed

text \<open>
  C2. Chain resolution, for every call whose session part succeeds (the client was set
  or \<open>connect\<close> has set it), whose CSR is built and whose sign call returns a secret
  with the text \<open>leaf\<close> as its \<open>certificate\<close>. With a \<open>ca_chain\<close> sequence of
  texts the chain is the leaf followed by each entry in the order returned, whether or
  not there is an \<open>issuing_ca\<close>; with no \<open>ca_chain\<close> and an \<open>issuing_ca\<close> text it
  is the leaf and the issuing CA; with neither it is the leaf alone. In each case
  the outcome of \<open>Issue\<close> is the outcome of lines 116 to 123 on that chain text
  and the key of the CSR, and where the library decodes in order and accepts the pair,
  \<open>Issue\<close> returns a certificate whose chain is the DER bytes of exactly those
  certificates, in that order.
\<close>

theorem Issue_chain_resolution:
  assumes "(if cli v = None then connect E v else (Returns None, v, [])) = (Returns None, w, ts)"
    and "fromCertConfig E commonName conf = (csrPEM, keyPEM, None)"
    and "fst (signCSR E w (Issue_opts w commonName csrPEM)) = Returns (Some sec, None)"
    and "map_of (Data sec) ''certificate'' = Some (JString leaf)"
  shows "(map_of (Data sec) ''ca_chain'' = Some (JArray (map JString chain)) \<longrightarrow>
            caChainPEM sec = Returns (chainText (leaf # chain)) \<and>
            fst (Issue E v commonName conf) = keyPair E (chainText (leaf # chain)) keyPEM \<and>
            (decodesInOrder pemDecode E \<longrightarrow>
             map pemDecode (leaf # chain) = map Some ders \<longrightarrow>
             snd (x509KeyPair E (chainText (leaf # chain)) keyPEM) = None \<longrightarrow>
               (\<exists>c. fst (Issue E v commonName conf) = Returns (Some c, None) \<and>
                    Certificate c = ders))) \<and>
         (map_of (Data sec) ''ca_chain'' = None \<longrightarrow>
          map_of (Data sec) ''issuing_ca'' = Some (JString ca) \<longrightarrow>
            caChainPEM sec = Returns (chainText [leaf, ca]) \<and>
            fst (Issue E v commonName conf) = keyPair E (chainText [leaf, ca]) keyPEM \<and>
            (decodesInOrder pemDecode E \<longrightarrow>
             map pemDecode [leaf, ca] = map Some ders \<longrightarrow>
             snd (x509KeyPair E (chainText [leaf, ca]) keyPEM) = None \<longrightarrow>
               (\<exists>c. fst (Issue E v commonName conf) = Returns (Some c, None) \<and>
                    Certificate c = ders))) \<and>
         (map_of (Data sec) ''ca_chain'' = None \<longrightarrow>
          map_of (Data sec) ''issuing_ca'' = None \<longrightarrow>
            caChainPEM sec = Returns (chainText [leaf]) \<and>
            fst (Issue E v commonName conf) = keyPair E (chainText [leaf]) keyPEM \<and>
            (decodesInOrder pemDecode E \<longrightarrow>
             map pemDecode [leaf] = map Some ders \<longrightarrow>
             snd (x509KeyPair E (chainText [leaf]) keyPEM) = None \<longrightarrow>
               (\<exists>c. fst (Issue E v commonName conf) = Returns (Some c, None) \<and>
                    Certificate c = ders)))"
proof (intro conjI)
  show "map_of (Data sec) ''ca_chain'' = Some (JArray (map JString chain)) \<longrightarrow>
            caChainPEM sec = Returns (chainText (leaf # chain)) \<and>
            fst (Issue E v commonName conf) = keyPair E (chainText (leaf # chain)) keyPEM \<and>
            (decodesInOrder pemDecode E \<longrightarrow>
             map pemDecode (leaf # chain) = map Some ders \<longrightarrow>
             snd (x509KeyPair E (chainText (leaf # chain)) keyPEM) = None \<longrightarrow>
               (\<exists>c. fst (Issue E v commonName conf) = Returns (Some c, None) \<and>
                    Certificate c = ders))"
  proof
    assume "map_of (Data sec) ''ca_chain'' = Some (JArray (map JString chain))"
    with assms(4) have chn: "caChainPEM sec = Returns (chainText (leaf # chain))"
      by (rule caChainPEM_chain)
    from chn Issue_chain [OF assms(1-3) chn, of pemDecode ders]
    show "caChainPEM sec = Returns (chainText (leaf # chain)) \<and>
            fst (Issue E v commonName conf) = keyPair E (chainText (leaf # chain)) keyPEM \<and>
            (decodesInOrder pemDecode E \<longrightarrow>
             map pemDecode (leaf # chain) = map Some ders \<longrightarrow>
             snd (x509KeyPair E (chainText (leaf # chain)) keyPEM) = None \<longrightarrow>
               (\<exists>c. fst (Issue E v commonName conf) = Returns (Some c, None) \<and>
                    Certificate c = ders))"
      by blast
  qed
  show "map_of (Data sec) ''ca_chain'' = None \<longrightarrow>
          map_of (Data sec) ''issuing_ca'' = Some (JString ca) \<longrightarrow>
            caChainPEM sec = Returns (chainText [leaf, ca]) \<and>
            fst (Issue E v commonName conf) = keyPair E (chainText [leaf, ca]) keyPEM \<and>
            (decodesInOrder pemDecode E \<longrightarrow>
             map pemDecode [leaf, ca] = map Some ders \<longrightarrow>
             snd (x509KeyPair E (chainText [leaf, ca]) keyPEM) = None \<longrightarrow>
               (\<exists>c. fst (Issue E v commonName conf) = Returns (Some c, None) \<and>
                    Certificate c = ders))"
  proof (intro impI)
    assume "map_of (Data sec) ''ca_chain'' = None"
      and "map_of (Data sec) ''issuing_ca'' = Some (JString ca)"
    with assms(4) have chn: "caChainPEM sec = Returns (chainText [leaf, ca])"
      by (rule caChainPEM_issuing)
    from chn Issue_chain [OF assms(1-3) chn, of pemDecode ders]
    show "caChainPEM sec = Returns (chainText [leaf, ca]) \<and>
            fst (Issue E v commonName conf) = keyPair E (chainText [leaf, ca]) keyPEM \<and>
            (decodesInOrder pemDecode E \<longrightarrow>
             map pemDecode [leaf, ca] = map Some ders \<longrightarrow>
             snd (x509KeyPair E (chainText [leaf, ca]) keyPEM) = None \<longrightarrow>
               (\<exists>c. fst (Issue E v commonName conf) = Returns (Some c, None) \<and>
                    Certificate c = ders))"
      by blast
  qed
  show "map_of (Data sec) ''ca_chain'' = None \<longrightarrow>
          map_of (Data sec) ''issuing_ca'' = None \<longrightarrow>
            caChainPEM sec = Returns (chainText [leaf]) \<and>
            fst (Issue E v commonName conf) = keyPair E (chainText [leaf]) keyPEM \<and>
            (decodesInOrder pemDecode E \<longrightarrow>
             map pemDecode [leaf] = map Some ders \<longrightarrow>
             snd (x509KeyPair E (chainText [leaf]) keyPEM) = None \<longrightarrow>
               (\<exists>c. fst (Issue E v commonName conf) = Returns (Some c, None) \<and>
                    Certificate c = ders))"
  proof (intro impI)
    assume "map_of (Data sec) ''ca_chain'' = None"
      and "map_of (Data sec) ''issuing_ca'' = None"
    with assms(4) have chn: "caChainPEM sec = Returns (chainText [leaf])"
      by (rule caChainPEM_leaf)
    from chn Issue_chain [OF assms(1-3) chn, of pemDecode ders]
    show "caChainPEM sec = Returns (chainText [leaf]) \<and>
            fst (Issue E v commonName conf) = keyPair E (chainText [leaf]) keyPEM \<and>
            (decodesInOrder pemDecode E \<longrightarrow>
             map pemDecode [leaf] = map Some ders \<longrightarrow>
             snd (x509KeyPair E (chainText [leaf]) keyPEM) = None \<longrightarrow>
               (\<exists>c. fst (Issue E v commonName conf) = Returns (Some c, None) \<and>
                    Certificate c = ders))"
      by blast
  qed
qed

theorem Issue_chain_resolution_witness:
  "decodesInOrder vaultPEM (vaultEnv signed200) \<and>
   map vaultPEM [''LEAF'', ''INT''] = map Some [''leaf-der'', ''int-der''] \<and>
   map vaultPEM [''LEAF'', ''CA''] = map Some [''leaf-der'', ''ca-der''] \<and>
   caChainPEM signedSecret = Returns (chainText [''LEAF'', ''INT'']) \<and>
   caChainPEM issuingSecret = Returns (chainText [''LEAF'', ''CA'']) \<and>
   caChainPEM leafSecret = Returns (chainText [''LEAF'']) \<and>
   (\<exists>c. fst (Issue (vaultEnv signed200) freshIssuer ''somename.com'' None)
          = Returns (Some c, None) \<and> Certificate c = [''leaf-der'', ''int-der'']) \<and>
   (\<exists>c. fst (Issue (vaultEnv issuing200) freshIssuer ''somename.com'' None)
          = Returns (Some c, None) \<and> Certificate c = [''leaf-der'', ''ca-der'']) \<and>
   (\<exists>c. fst (Issue (vaultEnv leaf200) clientIssuer ''somename.com'' None)
          = Returns (Some c, None) \<and> Certificate c = [''leaf-der''])"
proof -
  let ?w = "freshIssuer\<lparr>cli := Some vaultClient\<rparr>"
  have cw: "cli ?w = Some vaultClient" and cc: "cli clientIssuer = Some vaultClient"
    by (simp_all add: fixture_defs)
  have dec: "decodesInOrder vaultPEM (vaultEnv answer)" for answer
    by (rule vaultEnv_decodes)
  have l1: "map_of (Data signedSecret) ''certificate'' = Some (JString ''LEAF'')"
    and l2: "map_of (Data issuingSecret) ''certificate'' = Some (JString ''LEAF'')"
    and l3: "map_of (Data leafSecret) ''certificate'' = Some (JString ''LEAF'')"
    by (simp_all add: fixture_defs)
  have b1: "map_of (Data signedSecret) ''ca_chain'' = Some (JArray (map JString [''INT'']))"
    and b2: "map_of (Data issuingSecret) ''ca_chain'' = None"
    and b2': "map_of (Data issuingSecret) ''issuing_ca'' = Some (JString ''CA'')"
    and b3: "map_of (Data leafSecret) ''ca_chain'' = None"
    and b3': "map_of (Data leafSecret) ''issuing_ca'' = None"
    by (simp_all add: fixture_defs)
  have d1: "map vaultPEM (''LEAF'' # [''INT'']) = map Some [''leaf-der'', ''int-der'']"
    and d2: "map vaultPEM [''LEAF'', ''CA''] = map Some [''leaf-der'', ''ca-der'']"
    and d3: "map vaultPEM [''LEAF''] = map Some [''leaf-der'']"
    by (simp_all add: vaultPEM_def)
  have k1: "snd (x509KeyPair (vaultEnv signed200) (chainText (''LEAF'' # [''INT''])) ''KEY'') = None"
    and k2: "snd (x509KeyPair (vaultEnv issuing200) (chainText [''LEAF'', ''CA'']) ''KEY'') = None"
    and k3: "snd (x509KeyPair (vaultEnv leaf200) (chainText [''LEAF'']) ''KEY'') = None"
    by (simp_all add: vaultEnv_def)
  note r1 = Issue_chain_resolution [OF fresh_session vault_csr vault_signed(1) [OF cw] l1,
      THEN conjunct1, rule_format, OF b1]
  note r2 = Issue_chain_resolution [OF fresh_session vault_csr vault_signed(2) [OF cw] l2,
      THEN conjunct2, THEN conjunct1, rule_format, OF b2 b2']
  note r3 = Issue_chain_resolution [OF client_session vault_csr vault_signed(3) [OF cc] l3,
      THEN conjunct2, THEN conjunct2, rule_format, OF b3 b3']
  from r1 [THEN conjunct1]
  have t1: "caChainPEM signedSecret = Returns (chainText [''LEAF'', ''INT''])" .
  from r2 [THEN conjunct1]
  have t2: "caChainPEM issuingSecret = Returns (chainText [''LEAF'', ''CA''])" .
  from r3 [THEN conjunct1]
  have t3: "caChainPEM leafSecret = Returns (chainText [''LEAF''])" .
  from r1 [THEN conjunct2, THEN conjunct2, rule_format, OF dec d1 k1]
  have c1: "\<exists>c. fst (Issue (vaultEnv signed200) freshIssuer ''somename.com'' None)
          = Returns (Some c, None) \<and> Certificate c = [''leaf-der'', ''int-der'']" .
  from r2 [THEN conjunct2, THEN conjunct2, rule_format, OF dec d2 k2]
  have c2: "\<exists>c. fst (Issue (vaultEnv issuing200) freshIssuer ''somename.com'' None)
          = Returns (Some c, None) \<and> Certificate c = [''leaf-der'', ''ca-der'']" .
  from r3 [THEN conjunct2, THEN conjunct2, rule_format, OF dec d3 k3]
  have c3: "\<exists>c. fst (Issue (vaultEnv leaf200) clientIssuer ''somename.com'' None)
          = Returns (Some c, None) \<and> Certificate c = [''leaf-der'']" .
  from dec d1 d2 t1 t2 t3 c1 c2 c3 show ?thesis
    by simp
qed

text \<open>
  C3. The claim as the specification has it (a 404 answer whose body parses to a
  secret with a warning or a data entry is returned as a success) fails: \<open>signCSR\<close>
  returns the secret together with the error of the request, here the 404 error of the
  Vault client, and \<open>Issue\<close> returns that error.
\<close>

theorem signCSR_not_found_secret_keeps_error:
  "fst (signCSR (vaultEnv warned404) clientIssuer
          (Issue_opts clientIssuer ''somename.com'' ''CSR''))
     = Returns (Some warnedSecret, Some notFound) \<and>
   fst (Issue (vaultEnv warned404) clientIssuer ''somename.com'' None)
     = Returns (None, Some notFound)"
  by (simp add: code_defs fixture_defs)

text \<open>
  C3, as amended. On a 404 answer whose body parses to a secret with at least one
  warning or data entry, \<open>signCSR\<close> returns that secret together with the error of
  the request. When the body parses to no secret or to one with neither, an error of
  the request is returned with a nil secret; when the body does not parse (and the
  parse error is not \<open>io.EOF\<close>), the result is a nil secret and the error of the
  request, not the parse error.
\<close>

theorem signCSR_not_found:
  assumes "signCSR E v opts = (out, [SendRequest c r])"
    and "rawRequest E c r = (Some rs, err)"
    and "StatusCode rs = 404"
    and "parseSecret E (Body rs) = ((sec, parseErr), unread)"
  shows "(parseErr = None \<and> sec = Some s \<and> (Warnings s \<noteq> [] \<or> Data s \<noteq> []) \<longrightarrow>
            out = Returns (Some s, err)) \<and>
         (parseErr = None \<and> (sec = None \<or> sec = Some s \<and> Warnings s = [] \<and> Data s = []) \<and>
          err = Some e \<longrightarrow>
            out = Returns (None, Some e)) \<and>
         (parseErr = Some (Failure m) \<longrightarrow> out = Returns (None, err))"
proof -
  have "SendRequest c r \<in> set [SendRequest c r]" by simp
  from signCSR_trace [OF assms(1) this] assms(2)
  have out: "out = signCSR_response E (Some rs) err" by simp
  show ?thesis
    unfolding out using assms(3,4)
    by (auto simp: signCSR_response_def signCSR_rest_def)
qed

theorem signCSR_not_found_witness:
  "fst (signCSR (vaultEnv signed404) clientIssuer
          (Issue_opts clientIssuer ''somename.com'' ''CSR''))
     = Returns (Some signedSecret, Some notFound) \<and>
   fst (signCSR (vaultEnv bare404) clientIssuer
          (Issue_opts clientIssuer ''somename.com'' ''CSR''))
     = Returns (None, Some notFound) \<and>
   fst (signCSR (vaultEnv html404) clientIssuer
          (Issue_opts clientIssuer ''somename.com'' ''CSR''))
     = Returns (None, Some notFound)"
proof -
  let ?opts = "Issue_opts clientIssuer ''somename.com'' ''CSR''"
  let ?r = "\<lparr>Method = ''PUT'', URLPath = ''/v1/pki/sign/web'', Obj = Some ?opts\<rparr>"
  have s1: "signCSR (vaultEnv signed404) clientIssuer ?opts
              = (fst (signCSR (vaultEnv signed404) clientIssuer ?opts),
                 [SendRequest vaultClient ?r])"
    by (simp add: code_defs fixture_defs)
  have r1: "rawRequest (vaultEnv signed404) vaultClient ?r
              = (Some \<lparr>StatusCode = 404, Body = ''signed''\<rparr>, Some notFound)"
    by (simp add: fixture_defs)
  have p1: "parseSecret (vaultEnv signed404) (Body \<lparr>StatusCode = 404, Body = ''signed''\<rparr>)
              = ((Some signedSecret, None), [])"
    by (simp add: fixture_defs)
  have s2: "signCSR (vaultEnv bare404) clientIssuer ?opts
              = (fst (signCSR (vaultEnv bare404) clientIssuer ?opts),
                 [SendRequest vaultClient ?r])"
    by (simp add: code_defs fixture_defs)
  have r2: "rawRequest (vaultEnv bare404) vaultClient ?r
              = (Some \<lparr>StatusCode = 404, Body = ''{}''\<rparr>, Some notFound)"
    by (simp add: fixture_defs)
  have p2: "parseSecret (vaultEnv bare404) (Body \<lparr>StatusCode = 404, Body = ''{}''\<rparr>)
              = ((Some emptySecret, None), [])"
    by (simp add: fixture_defs)
  have s3: "signCSR (vaultEnv html404) clientIssuer ?opts
              = (fst (signCSR (vaultEnv html404) clientIssuer ?opts),
                 [SendRequest vaultClient ?r])"
    by (simp add: code_defs fixture_defs)
  have r3: "rawRequest (vaultEnv html404) vaultClient ?r
              = (Some \<lparr>StatusCode = 404, Body = ''<html>''\<rparr>, Some notFound)"
    by (simp add: fixture_defs)
  have p3: "parseSecret (vaultEnv html404) (Body \<lparr>StatusCode = 404, Body = ''<html>''\<rparr>)
              = ((None, Some (Failure ''invalid character'')), [])"
    by (simp add: fixture_defs)
  have "fst (signCSR (vaultEnv signed404) clientIssuer ?opts)
          = Returns (Some signedSecret, Some notFound)"
    using signCSR_not_found [OF s1 r1 _ p1, of signedSecret]
    by (simp add: signedSecret_def)
  moreover have "fst (signCSR (vaultEnv bare404) clientIssuer ?opts)
          = Returns (None, Some notFound)"
    using signCSR_not_found [OF s2 r2 _ p2, of emptySecret notFound]
    by (simp add: emptySecret_def)
  moreover have "fst (signCSR (vaultEnv html404) clientIssuer ?opts)
          = Returns (None, Some notFound)"
    using signCSR_not_found [OF s3 r3 _ p3, of _ _ "''invalid character''"]
    by simp
  ultimately show ?thesis by simp
qed


text \<open>
  C4. Pairing. Under the contract of the library, the key of every certificate that
  \<open>Issue\<close> returns matches the public key of its leaf. \<open>Issue\<close> does return one:
  when its session part succeeds, the CSR is built, the sign call returns a secret with
  a chain text and the library accepts the pair, the result is the library's
  certificate, with its key, and the leaf attached. When the library reports an error
  (a key that does not match the leaf is one), \<open>Issue\<close> returns that error and no
  certificate. The asynchronous issuer returns what \<open>Assemble\<close> returns, which is
  the certificate when key and leaf pair and \<open>PairingError\<close> when they do not.
\<close>

theorem Issue_key_matches_leaf:
  assumes "keyPairContract matches E"
  shows "(Issue E v commonName conf = (Returns (Some c, None), u, tr) \<longrightarrow>
            (\<exists>key leaf. PrivateKey c = Some key \<and> Leaf c = Some leaf \<and> matches key leaf)) \<and>
         ((if cli v = None then connect E v else (Returns None, v, [])) = (Returns None, w, ts) \<longrightarrow>
          fromCertConfig E commonName conf = (csrPEM, keyPEM, None) \<longrightarrow>
          fst (signCSR E w (Issue_opts w commonName csrPEM)) = Returns (Some sec, None) \<longrightarrow>
          caChainPEM sec = Returns chainPEM \<longrightarrow>
          x509KeyPair E chainPEM keyPEM = (tlsCert, None) \<longrightarrow>
            (\<exists>key leaf. fst (Issue E v commonName conf) =
                           Returns (Some (tlsCert\<lparr>Leaf := Some leaf\<rparr>), None) \<and>
                        PrivateKey tlsCert = Some key \<and> matches key leaf)) \<and>
         ((if cli v = None then connect E v else (Returns None, v, [])) = (Returns None, w, ts) \<longrightarrow>
          fromCertConfig E commonName conf = (csrPEM, keyPEM, None) \<longrightarrow>
          fst (signCSR E w (Issue_opts w commonName csrPEM)) = Returns (Some sec, None) \<longrightarrow>
          caChainPEM sec = Returns chainPEM \<longrightarrow>
          snd (x509KeyPair E chainPEM keyPEM) = Some e \<longrightarrow>
            fst (Issue E v commonName conf) = Returns (None, Some e)) \<and>
         (asyncIssue A I commonName conf = Inr d \<longrightarrow>
            (\<exists>key leaf. PrivateKey d = Some key \<and> Leaf d = Some leaf \<and>
                        pairs (assembling A) key leaf)) \<and>
         (parseLeaf (assembling A) first = Some lf \<longrightarrow>
          decodeKey (assembling A) keyBytes = Some k \<longrightarrow>
            Assemble (assembling A) (first # rest) keyBytes =
              (if pairs (assembling A) k lf
               then Inr \<lparr>Certificate = first # rest, PrivateKey = Some k, Leaf = Some lf\<rparr>
               else Inl PairingError))"
proof (intro conjI impI)
  assume "Issue E v commonName conf = (Returns (Some c, None), u, tr)"
  from Issue_success [OF this] obtain chainPEM keyPEM tlsCert der rest where
    kp: "x509KeyPair E chainPEM keyPEM = (tlsCert, None)" and
    chain: "Certificate tlsCert = der # rest" and
    c: "c = tlsCert\<lparr>Leaf := fst (parseCertificate E der)\<rparr>"
    by blast
  from assms kp obtain der' rest' leaf key where
    "Certificate tlsCert = der' # rest'" "parseCertificate E der' = (Some leaf, None)"
    "PrivateKey tlsCert = Some key" "matches key leaf"
    unfolding keyPairContract_def by blast
  with chain c show "\<exists>key leaf. PrivateKey c = Some key \<and> Leaf c = Some leaf \<and> matches key leaf"
    by simp
next
  assume ses: "(if cli v = None then connect E v else (Returns None, v, [])) = (Returns None, w, ts)"
    and csr: "fromCertConfig E commonName conf = (csrPEM, keyPEM, None)"
    and sgn: "fst (signCSR E w (Issue_opts w commonName csrPEM)) = Returns (Some sec, None)"
    and chn: "caChainPEM sec = Returns chainPEM"
    and kp: "x509KeyPair E chainPEM keyPEM = (tlsCert, None)"
  from assms kp obtain der rest leaf key where
    chain: "Certificate tlsCert = der # rest" and
    leaf: "parseCertificate E der = (Some leaf, None)" and
    key: "PrivateKey tlsCert = Some key" "matches key leaf"
    unfolding keyPairContract_def by blast
  from Issue_after_session [OF ses csr sgn chn] keyPair_success [OF kp chain] leaf
  have "fst (Issue E v commonName conf) = Returns (Some (tlsCert\<lparr>Leaf := Some leaf\<rparr>), None)"
    by simp
  with key show "\<exists>key leaf. fst (Issue E v commonName conf) =
                           Returns (Some (tlsCert\<lparr>Leaf := Some leaf\<rparr>), None) \<and>
                        PrivateKey tlsCert = Some key \<and> matches key leaf"
    by blast
next
  assume ses: "(if cli v = None then connect E v else (Returns None, v, [])) = (Returns None, w, ts)"
    and csr: "fromCertConfig E commonName conf = (csrPEM, keyPEM, None)"
    and sgn: "fst (signCSR E w (Issue_opts w commonName csrPEM)) = Returns (Some sec, None)"
    and chn: "caChainPEM sec = Returns chainPEM"
    and err: "snd (x509KeyPair E chainPEM keyPEM) = Some e"
  from Issue_after_session [OF ses csr sgn chn] keyPair_error [OF err]
  show "fst (Issue E v commonName conf) = Returns (None, Some e)"
    by simp
next
  assume "asyncIssue A I commonName conf = Inr d"
  from asyncIssue_success [OF this] obtain leaf chain keyBytes where
    "Assemble (assembling A) (leaf # chain) keyBytes = Inr d"
    by blast
  from Assemble_success [OF this]
  show "\<exists>key leaf. PrivateKey d = Some key \<and> Leaf d = Some leaf \<and> pairs (assembling A) key leaf"
    by auto
next
  assume "parseLeaf (assembling A) first = Some lf"
    and "decodeKey (assembling A) keyBytes = Some k"
  then show "Assemble (assembling A) (first # rest) keyBytes =
              (if pairs (assembling A) k lf
               then Inr \<lparr>Certificate = first # rest, PrivateKey = Some k, Leaf = Some lf\<rparr>
               else Inl PairingError)"
    by (simp add: Assemble_def)
qed

theorem Issue_key_matches_leaf_witness:
  "keyPairContract samePublicKey (vaultEnv signed200) \<and>
   fst (Issue (vaultEnv signed200) freshIssuer ''somename.com'' None) =
     Returns (Some \<lparr>Certificate = [''leaf-der'', ''int-der''],
                     PrivateKey = Some (Key ''public''), Leaf = Some leafCertificate\<rparr>, None) \<and>
   samePublicKey (Key ''public'') leafCertificate \<and>
   fst (Issue (vaultEnv foreign200) freshIssuer ''somename.com'' None)
     = Returns (None, Some mismatch) \<and>
   asyncIssue acmEnv acmIssuer ''somename.com'' None =
     Inr \<lparr>Certificate = [''leaf-der'', ''ca-der''], PrivateKey = Some (Key ''public''),
          Leaf = Some leafCertificate\<rparr> \<and>
   Assemble (assembling acmEnv) [''leaf-der'', ''ca-der''] ''KEY'' =
     Inr \<lparr>Certificate = [''leaf-der'', ''ca-der''], PrivateKey = Some (Key ''public''),
          Leaf = Some leafCertificate\<rparr> \<and>
   Assemble (assembling (acmEnv\<lparr>assembling := (assembling acmEnv)\<lparr>pairs := (\<lambda>k l. False)\<rparr>\<rparr>))
       [''leaf-der'', ''ca-der''] ''KEY'' = Inl PairingError"
proof -
  let ?w = "freshIssuer\<lparr>cli := Some vaultClient\<rparr>"
  let ?t = "\<lparr>Certificate = [''leaf-der'', ''int-der''],
             PrivateKey = Some (Key ''public''), Leaf = None\<rparr>"
  let ?d = "\<lparr>Certificate = [''leaf-der'', ''ca-der''], PrivateKey = Some (Key ''public''),
             Leaf = Some leafCertificate\<rparr>"
  let ?B = "acmEnv\<lparr>assembling := (assembling acmEnv)\<lparr>pairs := (\<lambda>k l. False)\<rparr>\<rparr>"
  have k: "keyPairContract samePublicKey (vaultEnv answer)" for answer
    by (rule vaultEnv_contract)
  have cw: "cli ?w = Some vaultClient"
    by simp
  have c1: "caChainPEM signedSecret = Returns (''LEAF'' @ [newline] @ ''INT'')"
    and c2: "caChainPEM foreignSecret = Returns ''FOREIGN''"
    by (simp_all add: caChainPEM_def fixture_defs)
  have p1: "x509KeyPair (vaultEnv signed200) (''LEAF'' @ [newline] @ ''INT'') ''KEY'' = (?t, None)"
    and p2: "snd (x509KeyPair (vaultEnv foreign200) ''FOREIGN'' ''KEY'') = Some mismatch"
    by (simp_all add: vaultEnv_def newline_def)
  from Issue_key_matches_leaf [OF k, THEN conjunct2, THEN conjunct1, rule_format,
      OF fresh_session vault_csr vault_signed(1) [OF cw] c1 p1]
  obtain key leaf where
    run: "fst (Issue (vaultEnv signed200) freshIssuer ''somename.com'' None) =
            Returns (Some (?t\<lparr>Leaf := Some leaf\<rparr>), None)"
    and key: "PrivateKey ?t = Some key" "samePublicKey key leaf"
    by blast
  from run fresh_run have leaf: "leaf = leafCertificate"
    by simp
  from Issue_key_matches_leaf [OF k, THEN conjunct1, rule_format, OF fresh_run]
  have sync: "\<exists>key leaf. PrivateKey (?t\<lparr>Leaf := Some leafCertificate\<rparr>) = Some key \<and>
                Leaf (?t\<lparr>Leaf := Some leafCertificate\<rparr>) = Some leaf \<and>
                samePublicKey key leaf"
    by simp
  from Issue_key_matches_leaf [OF k, THEN conjunct2, THEN conjunct2, THEN conjunct1, rule_format,
      OF fresh_session vault_csr vault_signed(4) [OF cw] c2 p2]
  have bad: "fst (Issue (vaultEnv foreign200) freshIssuer ''somename.com'' None)
               = Returns (None, Some mismatch)" .
  from Issue_key_matches_leaf [OF k, THEN conjunct2, THEN conjunct2, THEN conjunct2,
      THEN conjunct1, rule_format, OF acm_run]
  have async: "\<exists>key leaf. PrivateKey ?d = Some key \<and> Leaf ?d = Some leaf \<and>
                 pairs (assembling acmEnv) key leaf" .
  have pl: "parseLeaf (assembling acmEnv) ''leaf-der'' = Some leafCertificate"
    and dk: "decodeKey (assembling acmEnv) ''KEY'' = Some (Key ''public'')"
    and pl': "parseLeaf (assembling ?B) ''leaf-der'' = Some leafCertificate"
    and dk': "decodeKey (assembling ?B) ''KEY'' = Some (Key ''public'')"
    by (simp_all add: acmEnv_def)
  from Issue_key_matches_leaf [OF k, THEN conjunct2, THEN conjunct2, THEN conjunct2,
      THEN conjunct2, rule_format, OF pl dk, of "[''ca-der'']"]
  have good: "Assemble (assembling acmEnv) [''leaf-der'', ''ca-der''] ''KEY'' = Inr ?d"
    by (simp add: acmEnv_def samePublicKey_def leafCertificate_def)
  from Issue_key_matches_leaf [OF k, THEN conjunct2, THEN conjunct2, THEN conjunct2,
      THEN conjunct2, rule_format, OF pl' dk', of "[''ca-der'']"]
  have worse: "Assemble (assembling ?B) [''leaf-der'', ''ca-der''] ''KEY'' = Inl PairingError"
    by simp
  from k run leaf key sync async bad good worse acm_run show ?thesis
    by (simp add: samePublicKey_def leafCertificate_def)
qed

text \<open>
  C5. The head of the chain. Where the library decodes the certificates of a text in
  order, entry 0 of the chain that a successful \<open>Issue\<close> of the Vault issuer returns
  is the leaf: the DER bytes of the certificate in the \<open>certificate\<close> field of the
  secret the sign call returned. \<open>Issue\<close> does return such a chain: when its session
  part succeeds, the CSR is built, the sign call returns the secret and the library
  accepts the pair, the chain it returns is the one the library decoded, and its entry
  0 is the leaf. The chain of the asynchronous issuer is the fetched leaf followed by
  the fetched chain.
\<close>

theorem Issue_chain_starts_with_leaf:
  assumes "decodesInOrder pemDecode E"
  shows "(Issue E v commonName conf = (Returns (Some c, None), u, tr) \<longrightarrow>
            (\<exists>csrPEM keyPEM sec certPEM.
                fromCertConfig E commonName conf = (csrPEM, keyPEM, None) \<and>
                fst (signCSR E u (Issue_opts u commonName csrPEM)) = Returns (Some sec, None) \<and>
                map_of (Data sec) ''certificate'' = Some (JString certPEM) \<and>
                (\<forall>der. pemDecode certPEM = Some der \<longrightarrow>
                         Certificate c \<noteq> [] \<and> Certificate c ! 0 = der))) \<and>
         ((if cli v = None then connect E v else (Returns None, v, [])) = (Returns None, w, ts) \<longrightarrow>
          fromCertConfig E commonName conf = (csrPEM, keyPEM, None) \<longrightarrow>
          fst (signCSR E w (Issue_opts w commonName csrPEM)) = Returns (Some sec, None) \<longrightarrow>
          map_of (Data sec) ''certificate'' = Some (JString leaf) \<longrightarrow>
          pemDecode leaf = Some leafDER \<longrightarrow>
          caChainPEM sec = Returns chainPEM \<longrightarrow>
          x509KeyPair E chainPEM keyPEM = (tlsCert, None) \<longrightarrow>
            (\<exists>cert. fst (Issue E v commonName conf) = Returns (Some cert, None) \<and>
                    Certificate cert = Certificate tlsCert \<and>
                    Certificate cert \<noteq> [] \<and> Certificate cert ! 0 = leafDER)) \<and>
         (asyncIssue A I commonName conf = Inr d \<longrightarrow>
            (\<exists>handle fetched chain.
                fetch A (CertificateAuthority I) handle = Inr (fetched, chain) \<and>
                Certificate d = fetched # chain \<and>
                Certificate d ! 0 = fetched))"
proof (intro conjI impI)
  assume "Issue E v commonName conf = (Returns (Some c, None), u, tr)"
  from Issue_success [OF this] obtain csrPEM keyPEM sec t2 chainPEM tlsCert der ders where
    csr: "fromCertConfig E commonName conf = (csrPEM, keyPEM, None)" and
    sg: "signCSR E u (Issue_opts u commonName csrPEM) = (Returns (Some sec, None), t2)" and
    ch: "caChainPEM sec = Returns chainPEM" and
    kp: "x509KeyPair E chainPEM keyPEM = (tlsCert, None)" and
    c: "c = tlsCert\<lparr>Leaf := fst (parseCertificate E der)\<rparr>"
    by blast
  from caChainPEM_text [OF ch] obtain certPEM where
    leaf: "map_of (Data sec) ''certificate'' = Some (JString certPEM)"
    by blast
  have "Certificate c \<noteq> [] \<and> Certificate c ! 0 = d" if "pemDecode certPEM = Some d" for d
    using leaf_first [OF assms ch kp leaf that] c by auto
  with csr sg leaf
  show "\<exists>csrPEM keyPEM sec certPEM.
          fromCertConfig E commonName conf = (csrPEM, keyPEM, None) \<and>
          fst (signCSR E u (Issue_opts u commonName csrPEM)) = Returns (Some sec, None) \<and>
          map_of (Data sec) ''certificate'' = Some (JString certPEM) \<and>
          (\<forall>der. pemDecode certPEM = Some der \<longrightarrow>
                   Certificate c \<noteq> [] \<and> Certificate c ! 0 = der)"
    by (intro exI [of _ csrPEM] exI [of _ keyPEM] exI [of _ sec] exI [of _ certPEM]) simp
next
  assume ses: "(if cli v = None then connect E v else (Returns None, v, [])) = (Returns None, w, ts)"
    and csr: "fromCertConfig E commonName conf = (csrPEM, keyPEM, None)"
    and sgn: "fst (signCSR E w (Issue_opts w commonName csrPEM)) = Returns (Some sec, None)"
    and leaf: "map_of (Data sec) ''certificate'' = Some (JString leaf)"
    and der: "pemDecode leaf = Some leafDER"
    and chn: "caChainPEM sec = Returns chainPEM"
    and kp: "x509KeyPair E chainPEM keyPEM = (tlsCert, None)"
  from leaf_first [OF assms chn kp leaf der] obtain ders where
    chain: "Certificate tlsCert = leafDER # ders"
    by blast
  from Issue_after_session [OF ses csr sgn chn] keyPair_success [OF kp chain] chain
  show "\<exists>cert. fst (Issue E v commonName conf) = Returns (Some cert, None) \<and>
                Certificate cert = Certificate tlsCert \<and>
                Certificate cert \<noteq> [] \<and> Certificate cert ! 0 = leafDER"
    by simp
next
  assume "asyncIssue A I commonName conf = Inr d"
  from asyncIssue_success [OF this] obtain keyBytes handle leaf chain where
    f: "fetch A (CertificateAuthority I) handle = Inr (leaf, chain)" and
    a: "Assemble (assembling A) (leaf # chain) keyBytes = Inr d"
    by blast
  from Assemble_success [OF a] have "Certificate d = leaf # chain"
    by auto
  with f show "\<exists>handle fetched chain.
          fetch A (CertificateAuthority I) handle = Inr (fetched, chain) \<and>
          Certificate d = fetched # chain \<and>
          Certificate d ! 0 = fetched"
    by auto
qed

theorem Issue_chain_starts_with_leaf_witness:
  "decodesInOrder vaultPEM (vaultEnv signed200) \<and>
   vaultPEM ''LEAF'' = Some ''leaf-der'' \<and>
   map_of (Data signedSecret) ''certificate'' = Some (JString ''LEAF'') \<and>
   (\<exists>cert. fst (Issue (vaultEnv signed200) freshIssuer ''somename.com'' None)
             = Returns (Some cert, None) \<and>
           Certificate cert = [''leaf-der'', ''int-der''] \<and>
           Certificate cert ! 0 = ''leaf-der'') \<and>
   asyncIssue acmEnv acmIssuer ''somename.com'' None =
     Inr \<lparr>Certificate = [''leaf-der'', ''ca-der''], PrivateKey = Some (Key ''public''),
          Leaf = Some leafCertificate\<rparr> \<and>
   (\<exists>handle. fetch acmEnv ''someARN'' handle = Inr (''leaf-der'', [''ca-der'']))"
proof -
  let ?w = "freshIssuer\<lparr>cli := Some vaultClient\<rparr>"
  let ?t = "\<lparr>Certificate = [''leaf-der'', ''int-der''],
             PrivateKey = Some (Key ''public''), Leaf = None\<rparr>"
  let ?d = "\<lparr>Certificate = [''leaf-der'', ''ca-der''], PrivateKey = Some (Key ''public''),
             Leaf = Some leafCertificate\<rparr>"
  have dec: "decodesInOrder vaultPEM (vaultEnv signed200)"
    by (rule vaultEnv_decodes)
  have cw: "cli ?w = Some vaultClient"
    by simp
  have leaf: "map_of (Data signedSecret) ''certificate'' = Some (JString ''LEAF'')"
    and der: "vaultPEM ''LEAF'' = Some ''leaf-der''"
    and chn: "caChainPEM signedSecret = Returns (''LEAF'' @ [newline] @ ''INT'')"
    by (simp_all add: caChainPEM_def vaultPEM_def fixture_defs)
  have kp: "x509KeyPair (vaultEnv signed200) (''LEAF'' @ [newline] @ ''INT'') ''KEY'' = (?t, None)"
    by (simp add: vaultEnv_def newline_def)
  from Issue_chain_starts_with_leaf [OF dec, THEN conjunct2, THEN conjunct1, rule_format,
      OF fresh_session vault_csr vault_signed(1) [OF cw] leaf der chn kp]
  have run: "\<exists>cert. fst (Issue (vaultEnv signed200) freshIssuer ''somename.com'' None)
                     = Returns (Some cert, None) \<and>
                   Certificate cert = [''leaf-der'', ''int-der''] \<and>
                   Certificate cert ! 0 = ''leaf-der''"
    by simp blast
  from Issue_chain_starts_with_leaf [OF dec, THEN conjunct1, rule_format, OF fresh_run]
  have "\<exists>csrPEM keyPEM sec certPEM.
          fromCertConfig (vaultEnv signed200) ''somename.com'' None = (csrPEM, keyPEM, None) \<and>
          fst (signCSR (vaultEnv signed200) ?w (Issue_opts ?w ''somename.com'' csrPEM))
            = Returns (Some sec, None) \<and>
          map_of (Data sec) ''certificate'' = Some (JString certPEM) \<and>
          (\<forall>der. vaultPEM certPEM = Some der \<longrightarrow>
                   [''leaf-der'', ''int-der''] \<noteq> [] \<and> [''leaf-der'', ''int-der''] ! 0 = der)"
    by simp
  from Issue_chain_starts_with_leaf [OF dec, THEN conjunct2, THEN conjunct2, rule_format,
      OF acm_run]
  have async: "\<exists>handle. fetch acmEnv ''someARN'' handle = Inr (''leaf-der'', [''ca-der''])"
    by (auto simp: acmIssuer_def)
  from dec der leaf run async acm_run show ?thesis
    by simp
qed

text \<open>
  C6. The parsed leaf. Under the contract of the library, the certificate a successful
  \<open>Issue\<close> returns has a chain that is not empty and a leaf that is not nil: the
  parse of entry 0 of the chain. \<open>Issue\<close> does attach it: when its session part
  succeeds, the CSR is built, the sign call returns a secret with a chain text and the
  library accepts the pair, the result is the library's certificate with \<open>Leaf\<close> set
  to the parse of entry 0 of its chain. The same holds of the asynchronous issuer, whose
  assembler parses the leaf from the first entry and attaches it.
\<close>

theorem Issue_leaf_parsed:
  assumes "keyPairContract matches E"
  shows "(Issue E v commonName conf = (Returns (Some c, None), u, tr) \<longrightarrow>
            Certificate c \<noteq> [] \<and>
            (\<exists>leaf. Leaf c = Some leaf \<and>
                    parseCertificate E (Certificate c ! 0) = (Some leaf, None))) \<and>
         ((if cli v = None then connect E v else (Returns None, v, [])) = (Returns None, w, ts) \<longrightarrow>
          fromCertConfig E commonName conf = (csrPEM, keyPEM, None) \<longrightarrow>
          fst (signCSR E w (Issue_opts w commonName csrPEM)) = Returns (Some sec, None) \<longrightarrow>
          caChainPEM sec = Returns chainPEM \<longrightarrow>
          x509KeyPair E chainPEM keyPEM = (tlsCert, None) \<longrightarrow>
            Certificate tlsCert \<noteq> [] \<and>
            (\<exists>leaf. parseCertificate E (Certificate tlsCert ! 0) = (Some leaf, None) \<and>
                    fst (Issue E v commonName conf) =
                      Returns (Some (tlsCert\<lparr>Leaf := Some leaf\<rparr>), None))) \<and>
         (asyncIssue A I commonName conf = Inr d \<longrightarrow>
            Certificate d \<noteq> [] \<and>
            (\<exists>leaf. Leaf d = Some leaf \<and>
                    parseLeaf (assembling A) (Certificate d ! 0) = Some leaf)) \<and>
         (parseLeaf (assembling A) first = Some lf \<longrightarrow>
          decodeKey (assembling A) keyBytes = Some k \<longrightarrow>
          pairs (assembling A) k lf \<longrightarrow>
            Assemble (assembling A) (first # rest) keyBytes =
              Inr \<lparr>Certificate = first # rest, PrivateKey = Some k, Leaf = Some lf\<rparr>)"
proof (intro conjI impI)
  assume run: "Issue E v commonName conf = (Returns (Some c, None), u, tr)"
  from Issue_success [OF run] obtain chainPEM keyPEM tlsCert der rest where
    kp: "x509KeyPair E chainPEM keyPEM = (tlsCert, None)" and
    chain: "Certificate tlsCert = der # rest" and
    c: "c = tlsCert\<lparr>Leaf := fst (parseCertificate E der)\<rparr>"
    by blast
  from assms kp obtain der' rest' leaf where
    "Certificate tlsCert = der' # rest'" "parseCertificate E der' = (Some leaf, None)"
    unfolding keyPairContract_def by blast
  with chain c show "Certificate c \<noteq> []"
    and "\<exists>leaf. Leaf c = Some leaf \<and> parseCertificate E (Certificate c ! 0) = (Some leaf, None)"
    by simp_all
next
  assume ses: "(if cli v = None then connect E v else (Returns None, v, [])) = (Returns None, w, ts)"
    and csr: "fromCertConfig E commonName conf = (csrPEM, keyPEM, None)"
    and sgn: "fst (signCSR E w (Issue_opts w commonName csrPEM)) = Returns (Some sec, None)"
    and chn: "caChainPEM sec = Returns chainPEM"
    and kp: "x509KeyPair E chainPEM keyPEM = (tlsCert, None)"
  from assms kp obtain der rest leaf where
    chain: "Certificate tlsCert = der # rest" and
    leaf: "parseCertificate E der = (Some leaf, None)"
    unfolding keyPairContract_def by blast
  from chain show "Certificate tlsCert \<noteq> []"
    by simp
  from Issue_after_session [OF ses csr sgn chn] keyPair_success [OF kp chain] leaf chain
  show "\<exists>leaf. parseCertificate E (Certificate tlsCert ! 0) = (Some leaf, None) \<and>
               fst (Issue E v commonName conf) =
                 Returns (Some (tlsCert\<lparr>Leaf := Some leaf\<rparr>), None)"
    by simp
next
  assume "asyncIssue A I commonName conf = Inr d"
  from asyncIssue_success [OF this] obtain leaf chain keyBytes where
    "Assemble (assembling A) (leaf # chain) keyBytes = Inr d"
    by blast
  from Assemble_success [OF this]
  show "Certificate d \<noteq> []"
    and "\<exists>leaf. Leaf d = Some leaf \<and> parseLeaf (assembling A) (Certificate d ! 0) = Some leaf"
    by auto
next
  assume "parseLeaf (assembling A) first = Some lf"
    and "decodeKey (assembling A) keyBytes = Some k"
    and "pairs (assembling A) k lf"
  then show "Assemble (assembling A) (first # rest) keyBytes =
               Inr \<lparr>Certificate = first # rest, PrivateKey = Some k, Leaf = Some lf\<rparr>"
    by (simp add: Assemble_def)
qed

theorem Issue_leaf_parsed_witness:
  "keyPairContract samePublicKey (vaultEnv signed200) \<and>
   parseCertificate (vaultEnv signed200) ''leaf-der'' = (Some leafCertificate, None) \<and>
   fst (Issue (vaultEnv signed200) freshIssuer ''somename.com'' None) =
     Returns (Some \<lparr>Certificate = [''leaf-der'', ''int-der''],
                     PrivateKey = Some (Key ''public''), Leaf = Some leafCertificate\<rparr>, None) \<and>
   SubjectCommonName leafCertificate = ''somename.com'' \<and>
   asyncIssue acmEnv acmIssuer ''somename.com'' None =
     Inr \<lparr>Certificate = [''leaf-der'', ''ca-der''], PrivateKey = Some (Key ''public''),
          Leaf = Some leafCertificate\<rparr> \<and>
   parseLeaf (assembling acmEnv) ''leaf-der'' = Some leafCertificate \<and>
   Assemble (assembling acmEnv) [''leaf-der'', ''ca-der''] ''KEY'' =
     Inr \<lparr>Certificate = [''leaf-der'', ''ca-der''], PrivateKey = Some (Key ''public''),
          Leaf = Some leafCertificate\<rparr>"
proof -
  let ?w = "freshIssuer\<lparr>cli := Some vaultClient\<rparr>"
  let ?t = "\<lparr>Certificate = [''leaf-der'', ''int-der''],
             PrivateKey = Some (Key ''public''), Leaf = None\<rparr>"
  let ?d = "\<lparr>Certificate = [''leaf-der'', ''ca-der''], PrivateKey = Some (Key ''public''),
             Leaf = Some leafCertificate\<rparr>"
  have k: "keyPairContract samePublicKey (vaultEnv signed200)"
    by (rule vaultEnv_contract)
  have cw: "cli ?w = Some vaultClient"
    by simp
  have chn: "caChainPEM signedSecret = Returns (''LEAF'' @ [newline] @ ''INT'')"
    by (simp add: caChainPEM_def fixture_defs)
  have kp: "x509KeyPair (vaultEnv signed200) (''LEAF'' @ [newline] @ ''INT'') ''KEY'' = (?t, None)"
    by (simp add: vaultEnv_def newline_def)
  from Issue_leaf_parsed [OF k, THEN conjunct2, THEN conjunct1, rule_format,
      OF fresh_session vault_csr vault_signed(1) [OF cw] chn kp]
  obtain leaf where
    parsed: "parseCertificate (vaultEnv signed200) (Certificate ?t ! 0) = (Some leaf, None)"
    and run: "fst (Issue (vaultEnv signed200) freshIssuer ''somename.com'' None) =
                Returns (Some (?t\<lparr>Leaf := Some leaf\<rparr>), None)"
    by blast
  from parsed have leaf: "leaf = leafCertificate"
    by (simp add: vaultEnv_def)
  from Issue_leaf_parsed [OF k, THEN conjunct1, rule_format, OF fresh_run]
  have sync: "parseCertificate (vaultEnv signed200) ''leaf-der'' = (Some leafCertificate, None)"
    by simp
  from Issue_leaf_parsed [OF k, THEN conjunct2, THEN conjunct2, THEN conjunct1, rule_format,
      OF acm_run]
  have async: "parseLeaf (assembling acmEnv) ''leaf-der'' = Some leafCertificate"
    by simp
  have dk: "decodeKey (assembling acmEnv) ''KEY'' = Some (Key ''public'')"
    and pr: "pairs (assembling acmEnv) (Key ''public'') leafCertificate"
    by (simp_all add: acmEnv_def samePublicKey_def leafCertificate_def)
  from Issue_leaf_parsed [OF k, THEN conjunct2, THEN conjunct2, THEN conjunct2, rule_format,
      OF async dk pr, of "[''ca-der'']"]
  have asm: "Assemble (assembling acmEnv) [''leaf-der'', ''ca-der''] ''KEY'' = Inr ?d" .
  from k run leaf sync async asm acm_run show ?thesis
    by (simp add: leafCertificate_def)
qed

text \<open>
  C7. The signing request. Every request an \<open>Issue\<close> call sends is the one signing
  request of the call, and its body carries exactly the encoded CSR of the CSR
  package, the common name, exclude-CN-from-SANs set, the format \<open>pem\<close>, the
  issuer's other subject alternative names and the issuer's time to live.
\<close>

theorem Issue_signing_request:
  assumes "Issue E v commonName conf = (out, v1, tr)"
    and "SendRequest c r \<in> set tr"
  shows "Obj r = Some \<lparr>CSR = fst (fromCertConfig E commonName conf),
                       CommonName = commonName,
                       ExcludeCNFromSANS = True,
                       Format = ''pem'',
                       OtherSans = OtherSubjectAlternativeNames v,
                       optsTimeToLive = ttl (TimeToLive v)\<rparr> \<and>
         filter (\<lambda>ev. \<not> isNewClient ev) tr = [SendRequest c r]"
proof -
  let ?csr = "fst (fromCertConfig E commonName conf)"
  from Issue_trace [OF assms]
  have one: "filter (\<lambda>ev. \<not> isNewClient ev) tr = [SendRequest c r]"
    and sent: "snd (signCSR E v1 (Issue_opts v1 commonName ?csr)) = [SendRequest c r]"
    by simp_all
  obtain res where
    "signCSR E v1 (Issue_opts v1 commonName ?csr) = (res, [SendRequest c r])"
    using sent by (metis prod.collapse)
  from signCSR_trace [OF this] have body: "Obj r = Some (Issue_opts v1 commonName ?csr)"
    by (metis list.set_intros(1) request.select_convs(3))
  from Issue_frame [OF assms(1)] obtain x where "v1 = v\<lparr>cli := x\<rparr>"
    by metis
  then have "Issue_opts v1 commonName ?csr = Issue_opts v commonName ?csr"
    by (simp add: Issue_opts_def)
  with body one show ?thesis
    by (simp add: Issue_opts_def)
qed

theorem Issue_signing_request_witness:
  "Obj \<lparr>Method = ''PUT'', URLPath = ''/v1/pki-int/sign/web'',
        Obj = Some \<lparr>CSR = ''CSR'', CommonName = ''somename.com'', ExcludeCNFromSANS = True,
                    Format = ''pem'',
                    OtherSans = [''1.3.6.1.4.1.311.20.2.3;UTF8:devops@nope.com''],
                    optsTimeToLive = ttl 3600000000000\<rparr>\<rparr>
     = Some \<lparr>CSR = fst (fromCertConfig (vaultEnv signed200) ''somename.com'' None),
             CommonName = ''somename.com'', ExcludeCNFromSANS = True, Format = ''pem'',
             OtherSans = OtherSubjectAlternativeNames freshIssuer,
             optsTimeToLive = ttl (TimeToLive freshIssuer)\<rparr> \<and>
   length (filter (\<lambda>ev. \<not> isNewClient ev)
             (snd (snd (Issue (vaultEnv signed200) freshIssuer ''somename.com'' None)))) = 1"
proof -
  let ?r = "\<lparr>Method = ''PUT'', URLPath = ''/v1/pki-int/sign/web'',
        Obj = Some \<lparr>CSR = ''CSR'', CommonName = ''somename.com'', ExcludeCNFromSANS = True,
                    Format = ''pem'',
                    OtherSans = [''1.3.6.1.4.1.311.20.2.3;UTF8:devops@nope.com''],
                    optsTimeToLive = ttl 3600000000000\<rparr>\<rparr>"
  let ?tr = "[NewClient \<lparr>Address = ''https://vault:8200'', TLSClientConfig = None\<rparr>,
              SendRequest vaultClient ?r]"
  have sent: "SendRequest vaultClient ?r \<in> set ?tr"
    by simp
  from Issue_signing_request [OF fresh_run sent] show ?thesis
    by (simp add: fresh_run)
qed

text \<open>
  C8. The mount. Every request \<open>signCSR\<close> sends is a \<open>PUT\<close> to the sign endpoint of
  the role under the mount \<open>pki\<close> when \<open>Mount\<close> is empty, and under \<open>Mount\<close>
  otherwise.
\<close>

theorem signCSR_mount:
  assumes "signCSR E v opts = (out, tr)"
    and "SendRequest c r \<in> set tr"
  shows "Method r = ''PUT'' \<and>
         (Mount v = [] \<longrightarrow> URLPath r = ''/v1/'' @ ''pki'' @ ''/sign/'' @ Role v) \<and>
         (Mount v \<noteq> [] \<longrightarrow> URLPath r = ''/v1/'' @ Mount v @ ''/sign/'' @ Role v)"
proof -
  from signCSR_trace [OF assms]
  have "r = \<lparr>Method = ''PUT'',
             URLPath = ''/v1/'' @ (if Mount v \<noteq> [] then Mount v else ''pki'') @
                       ''/sign/'' @ Role v,
             Obj = Some opts\<rparr>"
    by simp
  then have "Method r = ''PUT''"
    and "URLPath r = ''/v1/'' @ (if Mount v \<noteq> [] then Mount v else ''pki'') @ ''/sign/'' @ Role v"
    by simp_all
  then show ?thesis
    by simp
qed

theorem signCSR_mount_witness:
  "snd (signCSR (vaultEnv signed200) clientIssuer
          (Issue_opts clientIssuer ''somename.com'' ''CSR'')) =
     [SendRequest vaultClient
        \<lparr>Method = ''PUT'', URLPath = ''/v1/pki/sign/web'',
         Obj = Some (Issue_opts clientIssuer ''somename.com'' ''CSR'')\<rparr>] \<and>
   snd (signCSR (vaultEnv signed200) (freshIssuer\<lparr>cli := Some vaultClient\<rparr>)
          (Issue_opts freshIssuer ''somename.com'' ''CSR'')) =
     [SendRequest vaultClient
        \<lparr>Method = ''PUT'', URLPath = ''/v1/pki-int/sign/web'',
         Obj = Some (Issue_opts freshIssuer ''somename.com'' ''CSR'')\<rparr>]"
proof -
  let ?E = "vaultEnv signed200"
  let ?o1 = "Issue_opts clientIssuer ''somename.com'' ''CSR''"
  let ?o2 = "Issue_opts freshIssuer ''somename.com'' ''CSR''"
  let ?v2 = "freshIssuer\<lparr>cli := Some vaultClient\<rparr>"
  obtain out1 c1 r1 where s1: "signCSR ?E clientIssuer ?o1 = (out1, [SendRequest c1 r1])"
    and c1: "c1 = vaultClient" and b1: "Obj r1 = Some ?o1"
    by (simp add: signCSR_def fixture_defs)
  obtain out2 c2 r2 where s2: "signCSR ?E ?v2 ?o2 = (out2, [SendRequest c2 r2])"
    and c2: "c2 = vaultClient" and b2: "Obj r2 = Some ?o2"
    by (simp add: signCSR_def fixture_defs)
  have m1: "Mount clientIssuer = []" and m2: "Mount ?v2 = ''pki-int''"
    and ro1: "Role clientIssuer = ''web''" and ro2: "Role ?v2 = ''web''"
    by (simp_all add: fixture_defs)
  from signCSR_mount [OF s1, of c1 r1] m1 ro1
  have "Method r1 = ''PUT'' \<and> URLPath r1 = ''/v1/pki/sign/web''"
    by simp
  with b1 have r1: "r1 = \<lparr>Method = ''PUT'', URLPath = ''/v1/pki/sign/web'', Obj = Some ?o1\<rparr>"
    by (cases r1) simp
  from signCSR_mount [OF s2, of c2 r2] m2 ro2
  have "Method r2 = ''PUT'' \<and> URLPath r2 = ''/v1/pki-int/sign/web''"
    by simp
  with b2 have r2: "r2 = \<lparr>Method = ''PUT'', URLPath = ''/v1/pki-int/sign/web'', Obj = Some ?o2\<rparr>"
    by (cases r2) simp
  from s1 s2 c1 c2 r1 r2 show ?thesis
    by simp
qed

text \<open>
  C9. The claim as the specification has it (the session is initialised at most once,
  under an exclusivity guarantee) fails: the test of line 79 and the assignment of
  line 67 are separate steps with no guard, and two first calls that both pass the test
  before either assigns each establish a session.
\<close>

theorem two_first_calls_connect_twice:
  "sessions (snd (fst (run (vaultEnv signed200) [0, 1, 0, 1, 0, 1]
                         ((freshIssuer, []), [AtCheck, AtCheck])))) = 2 \<and>
   snd (run (vaultEnv signed200) [0, 1, 0, 1, 0, 1] ((freshIssuer, []), [AtCheck, AtCheck]))
     = [Connected, Connected]"
  by (simp add: callStep_def sessions_def Let_def fixture_defs)

text \<open>
  C9, as amended. An issuer whose client is set, by \<open>FromClient\<close> or by an earlier
  call that has connected, never establishes a session again: no interleaving of calls
  that start after that changes the issuer or calls \<open>api.NewClient\<close>, and neither
  does a call of \<open>Issue\<close> on its own.
\<close>

theorem session_never_reestablished:
  assumes "cli v \<noteq> None"
  shows "(set pcs \<subseteq> {AtCheck, Connected} \<longrightarrow> fst (run E sched ((v, tr), pcs)) = (v, tr)) \<and>
         (Issue E v commonName conf = (out, v1, tr1) \<longrightarrow> v1 = v \<and> sessions tr1 = 0)"
proof (intro conjI impI)
  assume "set pcs \<subseteq> {AtCheck, Connected}"
  with assms show "fst (run E sched ((v, tr), pcs)) = (v, tr)"
    by (rule run_connected)
next
  assume run: "Issue E v commonName conf = (out, v1, tr1)"
  with assms Issue_frame show "v1 = v"
    by blast
  from run assms show "sessions tr1 = 0"
    by (auto simp: Issue_def sessions_def Let_def dest: signCSR_connects_nothing
             split: option.splits prod.splits result.splits)
qed

theorem session_never_reestablished_witness:
  "run (vaultEnv signed200) [0, 0, 0] ((freshIssuer, []), [AtCheck])
     = ((freshIssuer\<lparr>cli := Some vaultClient\<rparr>,
         [NewClient \<lparr>Address = ''https://vault:8200'', TLSClientConfig = None\<rparr>]),
        [Connected]) \<and>
   cli (freshIssuer\<lparr>cli := Some vaultClient\<rparr>) \<noteq> None \<and>
   fst (run (vaultEnv signed200) [1, 2, 2, 1]
          ((freshIssuer\<lparr>cli := Some vaultClient\<rparr>,
            [NewClient \<lparr>Address = ''https://vault:8200'', TLSClientConfig = None\<rparr>]),
           [Connected, AtCheck, AtCheck]))
     = (freshIssuer\<lparr>cli := Some vaultClient\<rparr>,
        [NewClient \<lparr>Address = ''https://vault:8200'', TLSClientConfig = None\<rparr>]) \<and>
   cli clientIssuer \<noteq> None \<and>
   fst (run (vaultEnv signed200) [0, 1, 1, 0, 0, 1] ((clientIssuer, []), [AtCheck, AtCheck]))
     = (clientIssuer, []) \<and>
   fst (snd (Issue (vaultEnv signed200) clientIssuer ''somename.com'' None)) = clientIssuer \<and>
   sessions (snd (snd (Issue (vaultEnv signed200) clientIssuer ''somename.com'' None))) = 0"
proof -
  have h: "cli clientIssuer \<noteq> None"
    by (simp add: fixture_defs)
  have p: "set [AtCheck, AtCheck] \<subseteq> {AtCheck, Connected}"
    by simp
  let ?v = "freshIssuer\<lparr>cli := Some vaultClient\<rparr>"
  let ?t = "[NewClient \<lparr>Address = ''https://vault:8200'', TLSClientConfig = None\<rparr>]"
  have first: "run (vaultEnv signed200) [0, 0, 0] ((freshIssuer, []), [AtCheck])
                 = ((?v, ?t), [Connected])"
    using run_alone [of "vaultEnv signed200" freshIssuer]
    by (simp add: connect_def Let_def fixture_defs)
  have h': "cli ?v \<noteq> None"
    by simp
  have p': "set [Connected, AtCheck, AtCheck] \<subseteq> {AtCheck, Connected}"
    by simp
  from session_never_reestablished [OF h', of "[Connected, AtCheck, AtCheck]"
      "vaultEnv signed200" "[1, 2, 2, 1]" ?t] p'
  have later: "fst (run (vaultEnv signed200) [1, 2, 2, 1] ((?v, ?t), [Connected, AtCheck, AtCheck]))
                 = (?v, ?t)"
    by simp
  from session_never_reestablished [OF h, of "[AtCheck, AtCheck]" "vaultEnv signed200"
      "[0, 1, 1, 0, 0, 1]" "[]" "''somename.com''" None _ clientIssuer] p signed_run h
  have "fst (run (vaultEnv signed200) [0, 1, 1, 0, 0, 1] ((clientIssuer, []), [AtCheck, AtCheck]))
          = (clientIssuer, []) \<and>
        fst (snd (Issue (vaultEnv signed200) clientIssuer ''somename.com'' None)) = clientIssuer \<and>
        sessions (snd (snd (Issue (vaultEnv signed200) clientIssuer ''somename.com'' None))) = 0"
    by simp
  with first later h h' show ?thesis
    by simp
qed

text \<open>
  C10. The frame of \<open>Issue\<close>. A call leaves \<open>URL\<close>, \<open>Token\<close>, \<open>Mount\<close>, \<open>Role\<close>,
  \<open>TLSConfig\<close>, \<open>TimeToLive\<close> and \<open>OtherSubjectAlternativeNames\<close> as they were;
  it writes \<open>cli\<close> only when \<open>cli\<close> was nil at entry, so a client that is set is
  never replaced.
\<close>

theorem Issue_writes_only_cli:
  assumes "Issue E v commonName conf = (out, v1, tr)"
  shows "URL v1 = URL v \<and> Token v1 = Token v \<and> Mount v1 = Mount v \<and> Role v1 = Role v \<and>
         TLSConfig v1 = TLSConfig v \<and> TimeToLive v1 = TimeToLive v \<and>
         OtherSubjectAlternativeNames v1 = OtherSubjectAlternativeNames v \<and>
         (cli v \<noteq> None \<longrightarrow> cli v1 = cli v)"
proof -
  from Issue_frame [OF assms] obtain x where v1: "v1 = v\<lparr>cli := x\<rparr>"
    and kept: "cli v \<noteq> None \<longrightarrow> v1 = v"
    by metis
  from kept have "cli v \<noteq> None \<longrightarrow> cli v1 = cli v"
    by auto
  with v1 show ?thesis
    by simp
qed

theorem Issue_writes_only_cli_witness:
  "fst (snd (Issue (vaultEnv signed200) freshIssuer ''somename.com'' None))
     = freshIssuer\<lparr>cli := Some vaultClient\<rparr> \<and>
   Mount (freshIssuer\<lparr>cli := Some vaultClient\<rparr>) = Mount freshIssuer \<and>
   cli clientIssuer \<noteq> None \<and>
   cli (fst (snd (Issue (vaultEnv signed200) clientIssuer ''somename.com'' None)))
     = cli clientIssuer"
proof -
  have h: "cli clientIssuer \<noteq> None"
    by (simp add: fixture_defs)
  from Issue_writes_only_cli [OF fresh_run]
  have a: "Mount (freshIssuer\<lparr>cli := Some vaultClient\<rparr>) = Mount freshIssuer"
    by simp
  from Issue_writes_only_cli [OF signed_run] h
  have b: "cli (fst (snd (Issue (vaultEnv signed200) clientIssuer ''somename.com'' None)))
             = cli clientIssuer"
    by (simp add: signed_run)
  from a b h show ?thesis
    by (simp add: fresh_run)
qed

end
